theory Spec2Isabelle
  imports Main "HOL-Library.Product_Lexorder"
begin

section \<open>JavaScript values\<close>

text \<open>
  A request body is parsed JSON. The scalar positions of a payload hold \<open>undefined\<close>
  (the property is absent), \<open>null\<close>, a number or a string. Numbers are the integers;
  booleans, fractions, arrays and objects in a scalar position are outside this model.
  Strings are lists of bytes, so \<open>length\<close> is the JavaScript \<open>.length\<close> on ASCII text.
\<close>

datatype jsval = JUndefined | JNull | JNum int | JStr string

text \<open>A JavaScript number as \<open>Number()\<close> and \<open>parseInt()\<close> return it: an integer or NaN.\<close>

datatype jsnumber = NaN | Num int

text \<open>An optional property of a validated object that may also be \<open>null\<close>.\<close>

datatype 'a field = FAbsent | FNull | FValue 'a

text \<open>A property that is expected to hold an array: an array of objects, or a scalar.\<close>

datatype 'a json_items = NoItems jsval | Items "'a list"

definition truthy :: "jsval \<Rightarrow> bool" where
  "truthy v = (case v of JUndefined \<Rightarrow> False | JNull \<Rightarrow> False
                 | JNum n \<Rightarrow> n \<noteq> 0 | JStr s \<Rightarrow> s \<noteq> [])"

definition is_space :: "char \<Rightarrow> bool" where
  "is_space c = (c \<in> set [CHR '' '', CHR 0x09, CHR 0x0A, CHR 0x0B, CHR 0x0C, CHR 0x0D])"

definition is_digit :: "char \<Rightarrow> bool" where
  "is_digit c = (c \<in> set ''0123456789'')"

definition trim :: "string \<Rightarrow> string" where
  "trim s = rev (dropWhile is_space (rev (dropWhile is_space s)))"

definition digits_value :: "string \<Rightarrow> int" where
  "digits_value ds = foldl (\<lambda>acc c. 10 * acc + (int (of_char c) - 48)) 0 ds"

text \<open>
  \<open>Number(s)\<close> on a string: surrounding white space is dropped, the empty string is 0,
  an optionally signed run of decimal digits is that integer. Other spellings
  (fractions, exponents, hexadecimal, Infinity) denote no integer and are read as NaN.
\<close>

definition string_to_number :: "string \<Rightarrow> jsnumber" where
  "string_to_number s =
     (case trim s of
        [] \<Rightarrow> Num 0
      | c # r \<Rightarrow>
          (if (c = CHR ''-'' \<or> c = CHR ''+'') \<and> r \<noteq> [] \<and> list_all is_digit r
             then Num ((if c = CHR ''-'' then - 1 else 1) * digits_value r)
           else if list_all is_digit (c # r) then Num (digits_value (c # r))
           else NaN))"

definition Number_js :: "jsval \<Rightarrow> jsnumber" where
  "Number_js v = (case v of JUndefined \<Rightarrow> NaN | JNull \<Rightarrow> Num 0
                    | JNum n \<Rightarrow> Num n | JStr s \<Rightarrow> string_to_number s)"

text \<open>
  \<open>parseInt(v)\<close> reads the longest optionally signed digit prefix of \<open>String(v)\<close> after
  leading white space; \<open>String(null)\<close> and \<open>String(undefined)\<close> have none.
\<close>

definition parse_int_prefix :: "string \<Rightarrow> jsnumber" where
  "parse_int_prefix s =
     (case dropWhile is_space s of
        [] \<Rightarrow> NaN
      | c # r \<Rightarrow>
          (if c = CHR ''-'' \<or> c = CHR ''+''
             then (if takeWhile is_digit r = [] then NaN
                   else Num ((if c = CHR ''-'' then - 1 else 1) * digits_value (takeWhile is_digit r)))
           else if takeWhile is_digit (c # r) = [] then NaN
           else Num (digits_value (takeWhile is_digit (c # r)))))"

definition parseInt_js :: "jsval \<Rightarrow> jsnumber" where
  "parseInt_js v = (case v of JUndefined \<Rightarrow> NaN | JNull \<Rightarrow> NaN
                      | JNum n \<Rightarrow> Num n | JStr s \<Rightarrow> parse_int_prefix s)"

definition toLowerCase :: "string \<Rightarrow> string" where
  "toLowerCase s =
     map (\<lambda>c. if 65 \<le> (of_char c :: nat) \<and> (of_char c :: nat) \<le> 90
               then char_of ((of_char c :: nat) + 32) else c) s"

definition digit_char :: "nat \<Rightarrow> char" where
  "digit_char n = ''0123456789'' ! (n mod 10)"

function nat_to_string :: "nat \<Rightarrow> string" where
  "nat_to_string n =
     (if n < 10 then [digit_char n] else nat_to_string (n div 10) @ [digit_char n])"
  by pat_completeness auto
termination
  by (relation "measure id") auto

declare nat_to_string.simps [simp del]

definition int_to_string :: "int \<Rightarrow> string" where
  "int_to_string i =
     (if i < 0 then CHR ''-'' # nat_to_string (nat (- i)) else nat_to_string (nat i))"

text \<open>Reading a decimal numeral back; \<open>nat_to_string\<close> loses nothing.\<close>

definition string_to_nat :: "string \<Rightarrow> nat" where
  "string_to_nat s = foldl (\<lambda>acc c. 10 * acc + (of_char c - 48)) 0 s"

fun join :: "string \<Rightarrow> string list \<Rightarrow> string" where
  "join sep [] = []"
| "join sep [x] = x"
| "join sep (x # y # ys) = x @ sep @ join sep (y # ys)"

section \<open>api-utils.ts\<close>

datatype error =
    ValidationError string "string list option"
  | PrismaKnownError string
  | PrismaValidationError

definition validateRequired :: "jsval \<Rightarrow> string \<Rightarrow> string option" where
  "validateRequired v fieldName =
     (if v = JUndefined \<or> v = JNull \<or> v = JStr []
        then Some (fieldName @ '' is required'') else None)"

definition validateString ::
  "jsval \<Rightarrow> string \<Rightarrow> nat option \<Rightarrow> nat option \<Rightarrow> string option" where
  "validateString v fieldName minLength maxLength =
     (case v of
        JStr s \<Rightarrow>
          (if minLength \<noteq> None \<and> length s < the minLength
             then Some (fieldName @ '' must be at least '' @ nat_to_string (the minLength)
                        @ '' characters long'')
           else if maxLength \<noteq> None \<and> length s > the maxLength
             then Some (fieldName @ '' must be no more than '' @ nat_to_string (the maxLength)
                        @ '' characters long'')
           else None)
      | _ \<Rightarrow> Some (fieldName @ '' must be a string''))"

definition validateNumber :: "jsval \<Rightarrow> string \<Rightarrow> int \<Rightarrow> int \<Rightarrow> string option" where
  "validateNumber v fieldName lo hi =
     (case Number_js v of
        NaN \<Rightarrow> Some (fieldName @ '' must be a valid number'')
      | Num n \<Rightarrow>
          if n < lo then Some (fieldName @ '' must be at least '' @ int_to_string lo)
          else if n > hi then Some (fieldName @ '' must be no more than '' @ int_to_string hi)
          else None)"

definition validateArray :: "'a json_items \<Rightarrow> string \<Rightarrow> string option" where
  "validateArray v fieldName =
     (case v of Items xs \<Rightarrow> None | NoItems x \<Rightarrow> Some (fieldName @ '' must be an array''))"

definition validCategories :: "string list" where
  "validCategories = [''strength'', ''cardio'', ''flexibility'', ''sports'', ''other'']"

definition validateWorkoutCategory :: "string \<Rightarrow> string option" where
  "validateWorkoutCategory category =
     (if toLowerCase category \<notin> set validCategories
        then Some (''Category must be one of: '' @ join '', '' validCategories)
      else None)"

text \<open>
  The global replacement of every maximal run of white space by one blank. The flag
  says that the previous character belonged to a run already replaced.
\<close>

fun collapse_spaces :: "bool \<Rightarrow> string \<Rightarrow> string" where
  "collapse_spaces in_run [] = []"
| "collapse_spaces in_run (c # cs) =
     (if is_space c
        then (if in_run then collapse_spaces True cs
              else CHR '' '' # collapse_spaces True cs)
      else c # collapse_spaces False cs)"

definition sanitizeString :: "string \<Rightarrow> string" where
  "sanitizeString input = collapse_spaces False (trim input)"

text \<open>The JavaScript \<open>a || b\<close> on two nullable messages.\<close>

definition or_else :: "string option \<Rightarrow> string option \<Rightarrow> string option" where
  "or_else a b = (case a of Some m \<Rightarrow> Some m | None \<Rightarrow> b)"

definition push_error :: "string list \<Rightarrow> string option \<Rightarrow> string list" where
  "push_error errors e = (case e of Some m \<Rightarrow> errors @ [m] | None \<Rightarrow> errors)"

section \<open>workout-validation.ts\<close>

text \<open>
  The validators take \<open>data: any\<close>. A payload is an object whose scalar properties are
  \<open>jsval\<close>s; \<open>exercises\<close> is a scalar or an array of exercise objects.
\<close>

record ExercisePayload =
  p_id :: jsval
  p_name :: jsval
  p_reps :: jsval
  p_sets :: jsval
  p_duration :: jsval
  p_notes :: jsval
  p_order :: jsval
  p_action :: jsval

record WorkoutPayload =
  b_name :: jsval
  b_description :: jsval
  b_category :: jsval
  b_exercises :: "ExercisePayload json_items"

text \<open>
  \<open>CreateExerciseData\<close>: \<open>validateCreateExercise\<close> returns the parsed order;
  \<open>validateCreateWorkout\<close> overwrites it with the payload's own order value.
\<close>

record 'o CreateExerciseData =
  ce_name :: string
  ce_reps :: "jsnumber option"
  ce_sets :: "jsnumber option"
  ce_duration :: "string option"
  ce_notes :: "string option"
  ce_order :: 'o

record CreateWorkoutRequest =
  cw_name :: string
  cw_description :: "string option"
  cw_category :: string
  cw_exercises :: "jsval CreateExerciseData list"

record UpdateExerciseData =
  u_id :: "string option"
  u_name :: "string option"
  u_reps :: "jsnumber field"
  u_sets :: "jsnumber field"
  u_duration :: "string field"
  u_notes :: "string field"
  u_order :: "jsnumber option"
  u_action :: "string option"

record UpdateWorkoutRequest =
  uw_name :: "string option"
  uw_description :: "string field"
  uw_category :: "string option"
  uw_exercises :: "UpdateExerciseData list option"

text \<open>The string held by a value that \<open>validateString\<close> has accepted.\<close>

definition as_string :: "jsval \<Rightarrow> string" where
  "as_string v = (case v of JStr s \<Rightarrow> s | _ \<Rightarrow> [])"

text \<open>\<open>validateRequired\<close> at a property that may hold an array.\<close>

definition validateRequiredItems :: "'a json_items \<Rightarrow> string \<Rightarrow> string option" where
  "validateRequiredItems v fieldName =
     (case v of NoItems x \<Rightarrow> validateRequired x fieldName | Items xs \<Rightarrow> None)"

definition validateCreateExercise :: "ExercisePayload \<Rightarrow> error + jsnumber CreateExerciseData" where
  "validateCreateExercise data =
     (let errors = push_error []
            (or_else (validateRequired (p_name data) ''name'')
                     (validateString (p_name data) ''name'' (Some 1) (Some 100)));
          errors = (if p_reps data \<noteq> JUndefined \<and> p_reps data \<noteq> JNull
                      then push_error errors (validateNumber (p_reps data) ''reps'' 1 1000)
                    else errors);
          errors = (if p_sets data \<noteq> JUndefined \<and> p_sets data \<noteq> JNull
                      then push_error errors (validateNumber (p_sets data) ''sets'' 1 100)
                    else errors);
          errors = (if p_duration data \<noteq> JUndefined \<and> p_duration data \<noteq> JNull
                      then push_error errors
                             (validateString (p_duration data) ''duration'' (Some 1) (Some 50))
                    else errors);
          errors = (if p_notes data \<noteq> JUndefined \<and> p_notes data \<noteq> JNull
                      then push_error errors
                             (validateString (p_notes data) ''notes'' (Some 0) (Some 500))
                    else errors);
          errors = push_error errors
            (or_else (validateRequired (p_order data) ''order'')
                     (validateNumber (p_order data) ''order'' 0 1000))
      in if errors \<noteq> [] then Inl (ValidationError (join '', '' errors) None)
         else Inr \<lparr> ce_name = sanitizeString (as_string (p_name data)),
                    ce_reps = (if truthy (p_reps data)
                                 then Some (parseInt_js (p_reps data)) else None),
                    ce_sets = (if truthy (p_sets data)
                                 then Some (parseInt_js (p_sets data)) else None),
                    ce_duration = (if truthy (p_duration data)
                                     then Some (sanitizeString (as_string (p_duration data)))
                                   else None),
                    ce_notes = (if truthy (p_notes data)
                                  then Some (sanitizeString (as_string (p_notes data)))
                                else None),
                    ce_order = parseInt_js (p_order data) \<rparr>)"

text \<open>
  The \<open>forEach\<close> over the exercises: a \<open>ValidationError\<close> thrown by the exercise
  validator is caught and reported under the exercise's 1-based position.
\<close>

fun exercise_errors ::
  "(ExercisePayload \<Rightarrow> error + 'a) \<Rightarrow> nat \<Rightarrow> ExercisePayload list \<Rightarrow> string list" where
  "exercise_errors validate index [] = []"
| "exercise_errors validate index (exercise # rest) =
     (case validate exercise of
        Inl (ValidationError m d) \<Rightarrow>
          [''Exercise '' @ nat_to_string (index + 1) @ '': '' @ m]
      | _ \<Rightarrow> [])
     @ exercise_errors validate (index + 1) rest"

text \<open>\<open>exercise.order ?? index\<close>.\<close>

definition order_or_index :: "jsval \<Rightarrow> nat \<Rightarrow> jsval" where
  "order_or_index v index = (if v = JUndefined \<or> v = JNull then JNum (int index) else v)"

text \<open>
  The final \<open>map\<close> of \<open>validateCreateWorkout\<close>: each exercise is validated again and
  its order replaced; an exception of the validator would propagate.
\<close>

fun create_exercises ::
  "nat \<Rightarrow> ExercisePayload list \<Rightarrow> error + jsval CreateExerciseData list" where
  "create_exercises index [] = Inr []"
| "create_exercises index (exercise # rest) =
     (case validateCreateExercise exercise of
        Inl e \<Rightarrow> Inl e
      | Inr r \<Rightarrow>
          (case create_exercises (index + 1) rest of
             Inl e \<Rightarrow> Inl e
           | Inr rs \<Rightarrow>
               Inr (\<lparr> ce_name = ce_name r, ce_reps = ce_reps r, ce_sets = ce_sets r,
                       ce_duration = ce_duration r, ce_notes = ce_notes r,
                       ce_order = order_or_index (p_order exercise) index \<rparr> # rs)))"

definition validateCreateWorkout :: "WorkoutPayload \<Rightarrow> error + CreateWorkoutRequest" where
  "validateCreateWorkout data =
     (let errors = push_error []
            (or_else (validateRequired (b_name data) ''name'')
                     (validateString (b_name data) ''name'' (Some 1) (Some 100)));
          errors = (if b_description data \<noteq> JUndefined \<and> b_description data \<noteq> JNull
                      then push_error errors
                             (validateString (b_description data) ''description'' (Some 0) (Some 500))
                    else errors);
          errors = push_error errors
            (or_else (validateRequired (b_category data) ''category'')
               (or_else (validateString (b_category data) ''category'' None None)
                        (validateWorkoutCategory (as_string (b_category data)))));
          exercisesError = or_else (validateRequiredItems (b_exercises data) ''exercises'')
                                   (validateArray (b_exercises data) ''exercises'');
          errors = (case exercisesError of
                      Some m \<Rightarrow> errors @ [m]
                    | None \<Rightarrow>
                        (case b_exercises data of
                           Items [] \<Rightarrow> errors @ [''At least one exercise is required'']
                         | Items xs \<Rightarrow> errors @ exercise_errors validateCreateExercise 0 xs
                         | NoItems x \<Rightarrow> errors))
      in if errors \<noteq> [] then Inl (ValidationError ''Validation failed'' (Some errors))
         else (case create_exercises 0 (case b_exercises data of Items xs \<Rightarrow> xs | NoItems x \<Rightarrow> []) of
                 Inl e \<Rightarrow> Inl e
               | Inr exercises \<Rightarrow>
                   Inr \<lparr> cw_name = sanitizeString (as_string (b_name data)),
                          cw_description = (if truthy (b_description data)
                                              then Some (sanitizeString (as_string (b_description data)))
                                            else None),
                          cw_category = toLowerCase (as_string (b_category data)),
                          cw_exercises = exercises \<rparr>))"

definition validateUpdateExercise :: "ExercisePayload \<Rightarrow> error + UpdateExerciseData" where
  "validateUpdateExercise data =
     (let errors = (if p_id data \<noteq> JUndefined
                      then push_error [] (validateString (p_id data) ''id'' None None)
                    else []);
          errors = (if p_name data \<noteq> JUndefined
                      then push_error errors
                             (validateString (p_name data) ''name'' (Some 1) (Some 100))
                    else errors);
          errors = (if p_reps data \<noteq> JUndefined \<and> p_reps data \<noteq> JNull
                      then push_error errors (validateNumber (p_reps data) ''reps'' 1 1000)
                    else errors);
          errors = (if p_sets data \<noteq> JUndefined \<and> p_sets data \<noteq> JNull
                      then push_error errors (validateNumber (p_sets data) ''sets'' 1 100)
                    else errors);
          errors = (if p_duration data \<noteq> JUndefined \<and> p_duration data \<noteq> JNull
                      then push_error errors
                             (validateString (p_duration data) ''duration'' (Some 1) (Some 50))
                    else errors);
          errors = (if p_notes data \<noteq> JUndefined \<and> p_notes data \<noteq> JNull
                      then push_error errors
                             (validateString (p_notes data) ''notes'' (Some 0) (Some 500))
                    else errors);
          errors = (if p_order data \<noteq> JUndefined
                      then push_error errors (validateNumber (p_order data) ''order'' 0 1000)
                    else errors);
          errors = (if p_action data \<noteq> JUndefined
                      then (if p_action data \<notin> set [JStr ''update'', JStr ''create'', JStr ''delete'']
                              then errors @ [''_action must be one of: update, create, delete'']
                            else errors)
                    else errors)
      in if errors \<noteq> [] then Inl (ValidationError (join '', '' errors) None)
         else Inr \<lparr> u_id = (if p_id data \<noteq> JUndefined
                               then Some (as_string (p_id data)) else None),
                    u_name = (if p_name data \<noteq> JUndefined
                                then Some (sanitizeString (as_string (p_name data))) else None),
                    u_reps = (if p_reps data \<noteq> JUndefined
                                then (if truthy (p_reps data)
                                        then FValue (parseInt_js (p_reps data)) else FNull)
                              else FAbsent),
                    u_sets = (if p_sets data \<noteq> JUndefined
                                then (if truthy (p_sets data)
                                        then FValue (parseInt_js (p_sets data)) else FNull)
                              else FAbsent),
                    u_duration = (if p_duration data \<noteq> JUndefined
                                    then (if truthy (p_duration data)
                                            then FValue (sanitizeString (as_string (p_duration data)))
                                          else FNull)
                                  else FAbsent),
                    u_notes = (if p_notes data \<noteq> JUndefined
                                 then (if truthy (p_notes data)
                                         then FValue (sanitizeString (as_string (p_notes data)))
                                       else FNull)
                               else FAbsent),
                    u_order = (if p_order data \<noteq> JUndefined
                                 then Some (parseInt_js (p_order data)) else None),
                    u_action = (if p_action data \<noteq> JUndefined
                                  then Some (as_string (p_action data)) else None) \<rparr>)"

text \<open>
  The final \<open>map\<close> of \<open>validateUpdateWorkout\<close> over the exercises; an exception of
  the validator would propagate.
\<close>

fun update_exercises :: "ExercisePayload list \<Rightarrow> error + UpdateExerciseData list" where
  "update_exercises [] = Inr []"
| "update_exercises (exercise # rest) =
     (case validateUpdateExercise exercise of
        Inl e \<Rightarrow> Inl e
      | Inr r \<Rightarrow>
          (case update_exercises rest of Inl e \<Rightarrow> Inl e | Inr rs \<Rightarrow> Inr (r # rs)))"

definition validateUpdateWorkout :: "WorkoutPayload \<Rightarrow> error + UpdateWorkoutRequest" where
  "validateUpdateWorkout data =
     (let errors = (if b_name data \<noteq> JUndefined
                      then push_error []
                             (validateString (b_name data) ''name'' (Some 1) (Some 100))
                    else []);
          errors = (if b_description data \<noteq> JUndefined
                      then push_error errors
                             (validateString (b_description data) ''description'' (Some 0) (Some 500))
                    else errors);
          errors = (if b_category data \<noteq> JUndefined
                      then push_error errors
                             (or_else (validateString (b_category data) ''category'' None None)
                                      (validateWorkoutCategory (as_string (b_category data))))
                    else errors);
          errors = (if b_exercises data \<noteq> NoItems JUndefined
                      then (case validateArray (b_exercises data) ''exercises'' of
                              Some m \<Rightarrow> errors @ [m]
                            | None \<Rightarrow>
                                (case b_exercises data of
                                   Items xs \<Rightarrow> errors @ exercise_errors validateUpdateExercise 0 xs
                                 | NoItems x \<Rightarrow> errors))
                    else errors)
      in if errors \<noteq> [] then Inl (ValidationError ''Validation failed'' (Some errors))
         else (case (case b_exercises data of
                       Items xs \<Rightarrow> (case update_exercises xs of
                                      Inl e \<Rightarrow> Inl e | Inr us \<Rightarrow> Inr (Some us))
                     | NoItems x \<Rightarrow> Inr None) of
                 Inl e \<Rightarrow> Inl e
               | Inr exercises \<Rightarrow>
                   Inr \<lparr> uw_name = (if b_name data \<noteq> JUndefined
                                        then Some (sanitizeString (as_string (b_name data)))
                                      else None),
                          uw_description = (if b_description data \<noteq> JUndefined
                                              then (if truthy (b_description data)
                                                      then FValue (sanitizeString
                                                             (as_string (b_description data)))
                                                    else FNull)
                                            else FAbsent),
                          uw_category = (if b_category data \<noteq> JUndefined
                                           then Some (toLowerCase (as_string (b_category data)))
                                         else None),
                          uw_exercises = exercises \<rparr>))"

section \<open>The database\<close>

text \<open>
  The tables of the Prisma schema: \<open>Workout\<close>, \<open>Exercise\<close> and \<open>WorkoutCompletion\<close>.
  Time stamps are natural numbers. A table is the list of its rows in insertion order.
\<close>

record Workout =
  w_id :: string
  w_name :: string
  w_description :: "string option"
  w_category :: string
  w_isFavorite :: bool
  w_createdAt :: nat
  w_updatedAt :: nat

record Exercise =
  e_id :: string
  e_name :: string
  e_reps :: "int option"
  e_sets :: "int option"
  e_duration :: "string option"
  e_notes :: "string option"
  e_workoutId :: string
  e_order :: int

record WorkoutCompletion =
  c_id :: string
  c_workoutId :: string
  c_completedAt :: nat
  c_notes :: "string option"
  c_duration :: "int option"

text \<open>
  The state of the store. \<open>id_counter\<close> drives the id generator behind the schema's
  \<open>@default(cuid())\<close>; \<open>clock\<close> is the time that \<open>now()\<close> and \<open>@updatedAt\<close> read.
\<close>

record db =
  workouts :: "Workout list"
  exercises :: "Exercise list"
  completions :: "WorkoutCompletion list"
  id_counter :: nat
  clock :: nat

definition cuid :: "nat \<Rightarrow> string" where
  "cuid n = CHR ''c'' # nat_to_string n"

text \<open>
  The id of a new row: the generator returns an id that no row of the table carries.
  It tries \<open>cuid c\<close>, \<open>cuid (c + 1)\<close>, ... from the counter on; among
  \<open>length used + 1\<close> candidates one is unused.
\<close>

fun first_unused :: "string list \<Rightarrow> nat \<Rightarrow> nat \<Rightarrow> nat" where
  "first_unused used c 0 = c"
| "first_unused used c (Suc fuel) =
     (if cuid c \<in> set used then first_unused used (Suc c) fuel else c)"

definition next_id :: "string list \<Rightarrow> nat \<Rightarrow> nat" where
  "next_id used c = first_unused used c (length used)"

subsection \<open>Prisma client operations\<close>

text \<open>
  Arguments travel to the query engine as JSON, where NaN is written \<open>null\<close>: a nullable
  column stores NULL, a required column rejects the call.
\<close>

definition db_int :: "jsnumber \<Rightarrow> int option" where
  "db_int x = (case x of NaN \<Rightarrow> None | Num n \<Rightarrow> Some n)"

definition workout_findUnique :: "db \<Rightarrow> string \<Rightarrow> Workout option" where
  "workout_findUnique d wid = find (\<lambda>w. w_id w = wid) (workouts d)"

record WorkoutUpdateInput =
  wu_name :: "string option"
  wu_description :: "string field"
  wu_category :: "string option"
  wu_isFavorite :: "bool option"

definition apply_workout_update :: "nat \<Rightarrow> WorkoutUpdateInput \<Rightarrow> Workout \<Rightarrow> Workout" where
  "apply_workout_update now_ts data w =
     w \<lparr> w_name := (case wu_name data of Some n \<Rightarrow> n | None \<Rightarrow> w_name w),
         w_description := (case wu_description data of
                             FAbsent \<Rightarrow> w_description w | FNull \<Rightarrow> None | FValue x \<Rightarrow> Some x),
         w_category := (case wu_category data of Some c \<Rightarrow> c | None \<Rightarrow> w_category w),
         w_isFavorite := (case wu_isFavorite data of Some b \<Rightarrow> b | None \<Rightarrow> w_isFavorite w),
         w_updatedAt := now_ts \<rparr>"

text \<open>
  \<open>workout.update\<close>: error P2025 when no row has the id; the updated row is returned.
\<close>

definition workout_update :: "db \<Rightarrow> string \<Rightarrow> WorkoutUpdateInput \<Rightarrow> error + (db \<times> Workout)" where
  "workout_update d wid data =
     (case workout_findUnique d wid of
        None \<Rightarrow> Inl (PrismaKnownError ''P2025'')
      | Some w \<Rightarrow>
          Inr (d \<lparr> workouts :=
                 map (\<lambda>w. if w_id w = wid then apply_workout_update (clock d) data w else w)
                     (workouts d) \<rparr>,
               apply_workout_update (clock d) data w))"

text \<open>\<open>exercise.delete\<close>: error P2025 when no row has the id.\<close>

definition exercise_delete :: "db \<Rightarrow> string \<Rightarrow> error + db" where
  "exercise_delete d eid =
     (if \<not> list_ex (\<lambda>e. e_id e = eid) (exercises d) then Inl (PrismaKnownError ''P2025'')
      else Inr (d \<lparr> exercises := filter (\<lambda>e. e_id e \<noteq> eid) (exercises d) \<rparr>))"

record ExerciseUpdateInput =
  xu_name :: "string option"
  xu_reps :: "jsnumber field"
  xu_sets :: "jsnumber field"
  xu_duration :: "string field"
  xu_notes :: "string field"
  xu_order :: "jsnumber option"

definition apply_exercise_update :: "ExerciseUpdateInput \<Rightarrow> Exercise \<Rightarrow> Exercise" where
  "apply_exercise_update data e =
     e \<lparr> e_name := (case xu_name data of Some n \<Rightarrow> n | None \<Rightarrow> e_name e),
         e_reps := (case xu_reps data of
                      FAbsent \<Rightarrow> e_reps e | FNull \<Rightarrow> None | FValue x \<Rightarrow> db_int x),
         e_sets := (case xu_sets data of
                      FAbsent \<Rightarrow> e_sets e | FNull \<Rightarrow> None | FValue x \<Rightarrow> db_int x),
         e_duration := (case xu_duration data of
                          FAbsent \<Rightarrow> e_duration e | FNull \<Rightarrow> None | FValue x \<Rightarrow> Some x),
         e_notes := (case xu_notes data of
                       FAbsent \<Rightarrow> e_notes e | FNull \<Rightarrow> None | FValue x \<Rightarrow> Some x),
         e_order := (case xu_order data of Some (Num n) \<Rightarrow> n | _ \<Rightarrow> e_order e) \<rparr>"

text \<open>
  \<open>exercise.update\<close>: the required column \<open>order\<close> rejects NaN; error P2025 when no row
  has the id.
\<close>

definition exercise_update :: "db \<Rightarrow> string \<Rightarrow> ExerciseUpdateInput \<Rightarrow> error + db" where
  "exercise_update d eid data =
     (if xu_order data = Some NaN then Inl PrismaValidationError
      else if \<not> list_ex (\<lambda>e. e_id e = eid) (exercises d) then Inl (PrismaKnownError ''P2025'')
      else Inr (d \<lparr> exercises :=
                  map (\<lambda>e. if e_id e = eid then apply_exercise_update data e else e)
                      (exercises d) \<rparr>))"

record ExerciseCreateInput =
  xc_workoutId :: string
  xc_name :: string
  xc_order :: int
  xc_reps :: "jsnumber field"
  xc_sets :: "jsnumber field"
  xc_duration :: "string field"
  xc_notes :: "string field"

definition new_exercise :: "string \<Rightarrow> ExerciseCreateInput \<Rightarrow> Exercise" where
  "new_exercise eid data =
     \<lparr> e_id = eid, e_name = xc_name data,
       e_reps = (case xc_reps data of FValue x \<Rightarrow> db_int x | _ \<Rightarrow> None),
       e_sets = (case xc_sets data of FValue x \<Rightarrow> db_int x | _ \<Rightarrow> None),
       e_duration = (case xc_duration data of FValue x \<Rightarrow> Some x | _ \<Rightarrow> None),
       e_notes = (case xc_notes data of FValue x \<Rightarrow> Some x | _ \<Rightarrow> None),
       e_workoutId = xc_workoutId data, e_order = xc_order data \<rparr>"

text \<open>\<open>exercise.create\<close>: the new row gets a generated id and is returned.\<close>

definition exercise_create :: "db \<Rightarrow> ExerciseCreateInput \<Rightarrow> db \<times> Exercise" where
  "exercise_create d data =
     (let n = next_id (map e_id (exercises d)) (id_counter d);
          newExercise = new_exercise (cuid n) data
      in (d \<lparr> exercises := exercises d @ [newExercise], id_counter := Suc n \<rparr>,
          newExercise))"

definition exercise_deleteMany :: "db \<Rightarrow> string list \<Rightarrow> db" where
  "exercise_deleteMany d ids = d \<lparr> exercises := filter (\<lambda>e. e_id e \<notin> set ids) (exercises d) \<rparr>"

text \<open>
  \<open>$transaction\<close>: the callback runs on the store; when it throws, every write it made
  is rolled back and the exception propagates.
\<close>

definition transaction :: "(db \<Rightarrow> error + (db \<times> 'a)) \<Rightarrow> db \<Rightarrow> db \<times> (error + 'a)" where
  "transaction body d =
     (case body d of Inl e \<Rightarrow> (d, Inl e) | Inr (d', r) \<Rightarrow> (d', Inr r))"

subsection \<open>Relations loaded by \<open>include\<close>\<close>

datatype exercises_include = ExercisesTrue | ExercisesOrderByOrderAsc

definition include_exercises :: "exercises_include \<Rightarrow> db \<Rightarrow> string \<Rightarrow> Exercise list" where
  "include_exercises inc d wid =
     (case inc of
        ExercisesTrue \<Rightarrow> filter (\<lambda>e. e_workoutId e = wid) (exercises d)
      | ExercisesOrderByOrderAsc \<Rightarrow>
          sort_key e_order (filter (\<lambda>e. e_workoutId e = wid) (exercises d)))"

text \<open>Completions ordered by \<open>completedAt\<close> descending, with an optional \<open>take\<close>.\<close>

definition include_completions :: "nat option \<Rightarrow> db \<Rightarrow> string \<Rightarrow> WorkoutCompletion list" where
  "include_completions take_n d wid =
     (let cs = sort_key (\<lambda>c. - int (c_completedAt c))
                 (filter (\<lambda>c. c_workoutId c = wid) (completions d))
      in case take_n of None \<Rightarrow> cs | Some n \<Rightarrow> take n cs)"

record WorkoutWithRelations =
  wr_workout :: Workout
  wr_exercises :: "Exercise list"
  wr_completions :: "WorkoutCompletion list"
  wr_count_exercises :: nat
  wr_count_completions :: nat

text \<open>
  A workout row with its included relations and \<open>_count\<close>. The second argument is the
  \<open>completions\<close> clause: \<open>None\<close> when the relation is not included, else its \<open>take\<close>.
\<close>

definition with_relations ::
  "exercises_include \<Rightarrow> nat option option \<Rightarrow> db \<Rightarrow> Workout \<Rightarrow> WorkoutWithRelations" where
  "with_relations inc compl d w =
     \<lparr> wr_workout = w,
       wr_exercises = include_exercises inc d (w_id w),
       wr_completions = (case compl of None \<Rightarrow> []
                         | Some take_n \<Rightarrow> include_completions take_n d (w_id w)),
       wr_count_exercises = length (filter (\<lambda>e. e_workoutId e = w_id w) (exercises d)),
       wr_count_completions = length (filter (\<lambda>c. c_workoutId c = w_id w) (completions d)) \<rparr>"

section \<open>Responses\<close>

record ApiError =
  ae_error :: string
  ae_message :: string
  ae_details :: "string list option"

text \<open>\<open>NextResponse.json(body, { status })\<close> with a success body or an error body.\<close>

datatype 'a response = SuccessResponse nat 'a | ErrorResponse nat ApiError

definition getErrorType :: "nat \<Rightarrow> string" where
  "getErrorType statusCode =
     (if statusCode = 400 then ''Bad Request''
      else if statusCode = 401 then ''Unauthorized''
      else if statusCode = 403 then ''Forbidden''
      else if statusCode = 404 then ''Not Found''
      else if statusCode = 405 then ''Method Not Allowed''
      else if statusCode = 409 then ''Conflict''
      else if statusCode = 422 then ''Unprocessable Entity''
      else if statusCode = 500 then ''Internal Server Error''
      else ''Unknown Error'')"

definition createErrorResponse :: "string \<Rightarrow> nat \<Rightarrow> string list option \<Rightarrow> 'a response" where
  "createErrorResponse message statusCode details =
     ErrorResponse statusCode
       \<lparr> ae_error = getErrorType statusCode, ae_message = message, ae_details = details \<rparr>"

definition createSuccessResponse :: "'a \<Rightarrow> nat \<Rightarrow> 'a response" where
  "createSuccessResponse data statusCode = SuccessResponse statusCode data"

text \<open>The \<open>details\<close> of a database error are those of a production deployment: none.\<close>

definition handlePrismaError :: "string \<Rightarrow> 'a response" where
  "handlePrismaError code =
     (if code = ''P2002'' then createErrorResponse ''A record with this data already exists'' 409 None
      else if code = ''P2025'' then createErrorResponse ''Record not found'' 404 None
      else if code = ''P2003'' then createErrorResponse ''Foreign key constraint failed'' 400 None
      else createErrorResponse ''Database operation failed'' 500 None)"

definition handleApiError :: "error \<Rightarrow> 'a response" where
  "handleApiError e =
     (case e of
        ValidationError message details \<Rightarrow> createErrorResponse message 400 details
      | PrismaKnownError code \<Rightarrow> handlePrismaError code
      | PrismaValidationError \<Rightarrow> createErrorResponse ''An unexpected error occurred'' 500 None)"

record ExerciseResponse =
  er_id :: string
  er_name :: string
  er_reps :: "int option"
  er_sets :: "int option"
  er_duration :: "string option"
  er_notes :: "string option"
  er_order :: int

record WorkoutCompletionResponse =
  cr_id :: string
  cr_completedAt :: nat
  cr_notes :: "string option"
  cr_duration :: "int option"

record WorkoutResponse =
  r_id :: string
  r_name :: string
  r_description :: "string option"
  r_category :: string
  r_isFavorite :: bool
  r_createdAt :: nat
  r_updatedAt :: nat
  r_exerciseCount :: nat
  r_completionCount :: nat
  r_lastCompleted :: "nat option"
  r_exercises :: "ExerciseResponse list"
  r_completions :: "WorkoutCompletionResponse list option"

definition exerciseResponse :: "Exercise \<Rightarrow> ExerciseResponse" where
  "exerciseResponse exercise =
     \<lparr> er_id = e_id exercise, er_name = e_name exercise, er_reps = e_reps exercise,
       er_sets = e_sets exercise, er_duration = e_duration exercise,
       er_notes = e_notes exercise, er_order = e_order exercise \<rparr>"

definition completionResponse :: "WorkoutCompletion \<Rightarrow> WorkoutCompletionResponse" where
  "completionResponse completion =
     \<lparr> cr_id = c_id completion, cr_completedAt = c_completedAt completion,
       cr_notes = c_notes completion, cr_duration = c_duration completion \<rparr>"

text \<open>
  The "Transform response" block shared by the handlers. The flag says whether the
  completion history is part of the response (the single fetch only).
\<close>

definition workoutResponse :: "bool \<Rightarrow> WorkoutWithRelations \<Rightarrow> WorkoutResponse" where
  "workoutResponse history workout =
     \<lparr> r_id = w_id (wr_workout workout),
       r_name = w_name (wr_workout workout),
       r_description = w_description (wr_workout workout),
       r_category = w_category (wr_workout workout),
       r_isFavorite = w_isFavorite (wr_workout workout),
       r_createdAt = w_createdAt (wr_workout workout),
       r_updatedAt = w_updatedAt (wr_workout workout),
       r_exerciseCount = wr_count_exercises workout,
       r_completionCount = wr_count_completions workout,
       r_lastCompleted = (case wr_completions workout of
                            [] \<Rightarrow> None | c # cs \<Rightarrow> Some (c_completedAt c)),
       r_exercises = map exerciseResponse (wr_exercises workout),
       r_completions = (if history then Some (map completionResponse (wr_completions workout))
                        else None) \<rparr>"

text \<open>The exercises of a response are sorted ascending by \<open>order\<close>.\<close>

definition ordered_exercises :: "WorkoutResponse \<Rightarrow> bool" where
  "ordered_exercises r = sorted (map er_order (r_exercises r))"

section \<open>PATCH /api/workouts/[id]/favorite\<close>

definition PATCH :: "db \<Rightarrow> string \<Rightarrow> db \<times> WorkoutResponse response" where
  "PATCH d wid =
     (case workout_findUnique d wid of
        None \<Rightarrow> (d, createErrorResponse (''Workout with id '' @ wid @ '' not found'') 404 None)
      | Some existingWorkout \<Rightarrow>
          (case workout_update d wid
                  \<lparr> wu_name = None, wu_description = FAbsent, wu_category = None,
                    wu_isFavorite = Some (\<not> w_isFavorite existingWorkout) \<rparr> of
             Inl e \<Rightarrow> (d, handleApiError e)
           | Inr (d', updatedWorkout) \<Rightarrow>
               (d', createSuccessResponse
                      (workoutResponse False
                         (with_relations ExercisesOrderByOrderAsc (Some (Some 1)) d' updatedWorkout))
                      200)))"

section \<open>GET /api/workouts/[id]\<close>

definition GET :: "db \<Rightarrow> string \<Rightarrow> WorkoutResponse response" where
  "GET d wid =
     (case workout_findUnique d wid of
        None \<Rightarrow> createErrorResponse (''Workout with id '' @ wid @ '' not found'') 404 None
      | Some workout \<Rightarrow>
          createSuccessResponse
            (workoutResponse True
               (with_relations ExercisesOrderByOrderAsc (Some None) d workout))
            200)"

section \<open>PUT /api/workouts/[id]\<close>

text \<open>The truth value of a directive's \<open>id\<close>: present and not the empty string.\<close>

definition has_id :: "UpdateExerciseData \<Rightarrow> bool" where
  "has_id exerciseData = (case u_id exerciseData of Some i \<Rightarrow> i \<noteq> [] | None \<Rightarrow> False)"

definition id_of :: "UpdateExerciseData \<Rightarrow> string" where
  "id_of exerciseData = (case u_id exerciseData of Some i \<Rightarrow> i | None \<Rightarrow> [])"

text \<open>\<open>Object.keys(updateData)\<close>: the properties that were assigned.\<close>

definition update_keys :: "ExerciseUpdateInput \<Rightarrow> string list" where
  "update_keys updateData =
     (if xu_name updateData = None then [] else [''name'']) @
     (if xu_reps updateData = FAbsent then [] else [''reps'']) @
     (if xu_sets updateData = FAbsent then [] else [''sets'']) @
     (if xu_duration updateData = FAbsent then [] else [''duration'']) @
     (if xu_notes updateData = FAbsent then [] else [''notes'']) @
     (if xu_order updateData = None then [] else [''order''])"

text \<open>\<open>exerciseData.name || 'Untitled Exercise'\<close> and \<open>exerciseData.order || 0\<close>.\<close>

definition name_or_default :: "string option \<Rightarrow> string" where
  "name_or_default n = (case n of Some x \<Rightarrow> if x \<noteq> [] then x else ''Untitled Exercise''
                          | None \<Rightarrow> ''Untitled Exercise'')"

definition order_or_default :: "jsnumber option \<Rightarrow> int" where
  "order_or_default x = (case x of Some (Num n) \<Rightarrow> if n \<noteq> 0 then n else 0 | _ \<Rightarrow> 0)"

text \<open>
  The body of the \<open>for\<close> loop of \<open>handleExerciseUpdates\<close>: one directive is dispatched
  on the transaction's store \<open>tx\<close>, and \<open>updatedExerciseIds\<close> grows.
\<close>

definition dispatch ::
  "string \<Rightarrow> string set \<Rightarrow> db \<times> string set \<Rightarrow> UpdateExerciseData
     \<Rightarrow> error + (db \<times> string set)" where
  "dispatch workoutId existingExerciseIds st exerciseData =
     (let tx = fst st; updatedExerciseIds = snd st in
      if u_action exerciseData = Some ''delete'' \<and> has_id exerciseData then
        (case exercise_delete tx (id_of exerciseData) of
           Inl e \<Rightarrow> Inl e
         | Inr tx' \<Rightarrow> Inr (tx', updatedExerciseIds))
      else if has_id exerciseData \<and> id_of exerciseData \<in> existingExerciseIds then
        (let updateData = \<lparr> xu_name = u_name exerciseData, xu_reps = u_reps exerciseData,
                             xu_sets = u_sets exerciseData, xu_duration = u_duration exerciseData,
                             xu_notes = u_notes exerciseData, xu_order = u_order exerciseData \<rparr>
         in case (if length (update_keys updateData) > 0
                    then exercise_update tx (id_of exerciseData) updateData
                  else Inr tx) of
              Inl e \<Rightarrow> Inl e
            | Inr tx' \<Rightarrow> Inr (tx', insert (id_of exerciseData) updatedExerciseIds))
      else
        (let createData = \<lparr> xc_workoutId = workoutId,
                             xc_name = name_or_default (u_name exerciseData),
                             xc_order = order_or_default (u_order exerciseData),
                             xc_reps = u_reps exerciseData, xc_sets = u_sets exerciseData,
                             xc_duration = u_duration exerciseData,
                             xc_notes = u_notes exerciseData \<rparr>;
             created = exercise_create tx createData
         in Inr (fst created, insert (e_id (snd created)) updatedExerciseIds)))"

fun dispatch_all ::
  "string \<Rightarrow> string set \<Rightarrow> db \<times> string set \<Rightarrow> UpdateExerciseData list
     \<Rightarrow> error + (db \<times> string set)" where
  "dispatch_all workoutId existingExerciseIds st [] = Inr st"
| "dispatch_all workoutId existingExerciseIds st (exerciseData # rest) =
     (case dispatch workoutId existingExerciseIds st exerciseData of
        Inl e \<Rightarrow> Inl e
      | Inr st' \<Rightarrow> dispatch_all workoutId existingExerciseIds st' rest)"

definition hasCompleteExerciseList :: "UpdateExerciseData list \<Rightarrow> bool" where
  "hasCompleteExerciseList exerciseUpdates =
     list_ex (\<lambda>e. \<not> has_id e \<or> u_action e = Some ''create'') exerciseUpdates"

definition exercisesToDelete ::
  "UpdateExerciseData list \<Rightarrow> Exercise list \<Rightarrow> string set \<Rightarrow> Exercise list" where
  "exercisesToDelete exerciseUpdates existingExercises updatedExerciseIds =
     filter (\<lambda>e. \<not> list_ex (\<lambda>u. u_id u = Some (e_id e) \<and> u_action u \<noteq> Some ''delete'')
                           exerciseUpdates)
       (filter (\<lambda>e. e_id e \<notin> updatedExerciseIds) existingExercises)"

definition handleExerciseUpdates ::
  "db \<Rightarrow> string \<Rightarrow> UpdateExerciseData list \<Rightarrow> Exercise list \<Rightarrow> error + db" where
  "handleExerciseUpdates tx workoutId exerciseUpdates existingExercises =
     (case dispatch_all workoutId (set (map e_id existingExercises)) (tx, {}) exerciseUpdates of
        Inl e \<Rightarrow> Inl e
      | Inr st \<Rightarrow>
          (let toDelete = exercisesToDelete exerciseUpdates existingExercises (snd st)
           in if hasCompleteExerciseList exerciseUpdates \<and> toDelete \<noteq> []
                then Inr (exercise_deleteMany (fst st) (map e_id toDelete))
              else Inr (fst st)))"

text \<open>
  "Update workout basic fields": \<open>workout.update\<close> is called when the validated data
  hold a name, a description or a category.
\<close>

definition workout_update_keys :: "WorkoutUpdateInput \<Rightarrow> string list" where
  "workout_update_keys workoutUpdateData =
     (if wu_name workoutUpdateData = None then [] else [''name'']) @
     (if wu_description workoutUpdateData = FAbsent then [] else [''description'']) @
     (if wu_category workoutUpdateData = None then [] else [''category''])"

definition update_basic_fields :: "string \<Rightarrow> UpdateWorkoutRequest \<Rightarrow> db \<Rightarrow> error + db" where
  "update_basic_fields wid validatedData tx =
     (let workoutUpdateData = \<lparr> wu_name = uw_name validatedData,
                                 wu_description = uw_description validatedData,
                                 wu_category = uw_category validatedData,
                                 wu_isFavorite = None \<rparr>
      in if length (workout_update_keys workoutUpdateData) > 0
           then map_sum id fst (workout_update tx wid workoutUpdateData)
         else Inr tx)"

text \<open>The callback that \<open>PUT\<close> passes to \<open>$transaction\<close>.\<close>

definition PUT_transaction ::
  "string \<Rightarrow> UpdateWorkoutRequest \<Rightarrow> Exercise list \<Rightarrow> db
     \<Rightarrow> error + (db \<times> WorkoutWithRelations option)" where
  "PUT_transaction wid validatedData existingExercises tx =
     (case update_basic_fields wid validatedData tx of
        Inl e \<Rightarrow> Inl e
      | Inr tx1 \<Rightarrow>
          (case (case uw_exercises validatedData of
                   Some exerciseUpdates \<Rightarrow>
                     handleExerciseUpdates tx1 wid exerciseUpdates existingExercises
                 | None \<Rightarrow> Inr tx1) of
             Inl e \<Rightarrow> Inl e
           | Inr tx2 \<Rightarrow>
               Inr (tx2, map_option (with_relations ExercisesOrderByOrderAsc (Some (Some 1)) tx2)
                                    (workout_findUnique tx2 wid))))"

definition PUT :: "db \<Rightarrow> string \<Rightarrow> WorkoutPayload \<Rightarrow> db \<times> WorkoutResponse response" where
  "PUT d wid body =
     (case workout_findUnique d wid of
        None \<Rightarrow> (d, createErrorResponse (''Workout with id '' @ wid @ '' not found'') 404 None)
      | Some existingWorkout \<Rightarrow>
          (case validateUpdateWorkout body of
             Inl e \<Rightarrow> (d, handleApiError e)
           | Inr validatedData \<Rightarrow>
               (case transaction
                       (PUT_transaction wid validatedData (include_exercises ExercisesTrue d wid)) d of
                  (d', Inl e) \<Rightarrow> (d', handleApiError e)
                | (d', Inr None) \<Rightarrow>
                    (d', createErrorResponse ''Failed to update workout'' 500 None)
                | (d', Inr (Some updatedWorkout)) \<Rightarrow>
                    (d', createSuccessResponse (workoutResponse False updatedWorkout) 200))))"

section \<open>POST /api/workouts\<close>

text \<open>
  \<open>workout.create\<close>: the new row gets a generated id, \<open>isFavorite\<close> false and both
  time stamps \<open>now()\<close>.
\<close>

definition workout_create :: "db \<Rightarrow> string \<Rightarrow> string option \<Rightarrow> string \<Rightarrow> db \<times> Workout" where
  "workout_create d name description category =
     (let n = next_id (map w_id (workouts d)) (id_counter d);
          newWorkout = \<lparr> w_id = cuid n, w_name = name,
                             w_description = description, w_category = category,
                             w_isFavorite = False, w_createdAt = clock d,
                             w_updatedAt = clock d \<rparr>
      in (d \<lparr> workouts := workouts d @ [newWorkout], id_counter := Suc n \<rparr>,
          newWorkout))"

text \<open>
  \<open>exercise.createMany\<close>: the call is rejected as a whole when some \<open>order\<close> is not
  a number, as the column is an \<open>Int\<close>; otherwise the rows are inserted one after the
  other.
\<close>

definition createMany_input :: "string \<Rightarrow> jsval CreateExerciseData \<Rightarrow> ExerciseCreateInput" where
  "createMany_input workoutId x =
     \<lparr> xc_workoutId = workoutId, xc_name = ce_name x,
       xc_order = (case ce_order x of JNum k \<Rightarrow> k | _ \<Rightarrow> 0),
       xc_reps = (case ce_reps x of Some r \<Rightarrow> FValue r | None \<Rightarrow> FAbsent),
       xc_sets = (case ce_sets x of Some r \<Rightarrow> FValue r | None \<Rightarrow> FAbsent),
       xc_duration = (case ce_duration x of Some r \<Rightarrow> FValue r | None \<Rightarrow> FAbsent),
       xc_notes = (case ce_notes x of Some r \<Rightarrow> FValue r | None \<Rightarrow> FAbsent) \<rparr>"

definition exercise_createMany ::
  "db \<Rightarrow> string \<Rightarrow> jsval CreateExerciseData list \<Rightarrow> error + db" where
  "exercise_createMany d workoutId xs =
     (if list_ex (\<lambda>x. case ce_order x of JNum k \<Rightarrow> False | _ \<Rightarrow> True) xs
        then Inl PrismaValidationError
      else Inr (foldl (\<lambda>tx x. fst (exercise_create tx (createMany_input workoutId x))) d xs))"

text \<open>The callback that \<open>POST\<close> passes to \<open>$transaction\<close>.\<close>

definition POST_transaction ::
  "CreateWorkoutRequest \<Rightarrow> db \<Rightarrow> error + (db \<times> WorkoutWithRelations option)" where
  "POST_transaction validatedData tx =
     (let created = workout_create tx (cw_name validatedData) (cw_description validatedData)
                      (cw_category validatedData);
          tx1 = fst created; newWorkout = snd created
      in case (if length (cw_exercises validatedData) > 0
                 then exercise_createMany tx1 (w_id newWorkout) (cw_exercises validatedData)
               else Inr tx1) of
           Inl e \<Rightarrow> Inl e
         | Inr tx2 \<Rightarrow>
             Inr (tx2, map_option (with_relations ExercisesOrderByOrderAsc None tx2)
                                  (workout_findUnique tx2 (w_id newWorkout))))"

definition POST :: "db \<Rightarrow> WorkoutPayload \<Rightarrow> db \<times> WorkoutResponse response" where
  "POST d body =
     (case validateCreateWorkout body of
        Inl e \<Rightarrow> (d, handleApiError e)
      | Inr validatedData \<Rightarrow>
          (case transaction (POST_transaction validatedData) d of
             (d', Inl e) \<Rightarrow> (d', handleApiError e)
           | (d', Inr None) \<Rightarrow> (d', createErrorResponse ''Failed to create workout'' 500 None)
           | (d', Inr (Some workout)) \<Rightarrow>
               (d', createSuccessResponse (workoutResponse False workout) 201)))"

section \<open>GET /api/workouts\<close>

text \<open>
  The query parameters as \<open>parseQueryParams\<close> returns them: the three filters are a
  string or \<open>null\<close>; \<open>page\<close> and \<open>limit\<close> are natural numbers (a request whose
  \<open>page\<close> or \<open>limit\<close> does not parse to one is outside this model).
\<close>

record QueryParams =
  q_category :: "string option"
  q_search :: "string option"
  q_favorite :: "string option"
  q_page :: nat
  q_limit :: nat

definition parseQueryParams ::
  "string option \<Rightarrow> string option \<Rightarrow> string option \<Rightarrow> nat option \<Rightarrow> nat option
     \<Rightarrow> QueryParams" where
  "parseQueryParams category search favorite page limit =
     \<lparr> q_category = category, q_search = search, q_favorite = favorite,
       q_page = (case page of Some p \<Rightarrow> p | None \<Rightarrow> 1),
       q_limit = min (case limit of Some l \<Rightarrow> l | None \<Rightarrow> 20) 100 \<rparr>"

text \<open>\<open>contains\<close> with \<open>mode: 'insensitive'\<close>.\<close>

fun contains :: "string \<Rightarrow> string \<Rightarrow> bool" where
  "contains [] needle = (needle = [])"
| "contains (c # cs) needle = (take (length needle) (c # cs) = needle \<or> contains cs needle)"

definition contains_insensitive :: "string \<Rightarrow> string \<Rightarrow> bool" where
  "contains_insensitive hay needle = contains (toLowerCase hay) (toLowerCase needle)"

text \<open>The \<open>where\<close> clause built from the query.\<close>

definition matches_where :: "QueryParams \<Rightarrow> Workout \<Rightarrow> bool" where
  "matches_where q w =
     ((case q_category q of
         Some category \<Rightarrow>
           (if category \<noteq> []
              then toLowerCase (w_category w) = toLowerCase (toLowerCase category) else True)
       | None \<Rightarrow> True) \<and>
      (case q_search q of
         Some search \<Rightarrow>
           (if search \<noteq> []
              then (contains_insensitive (w_name w) search \<or>
                    (case w_description w of Some desc \<Rightarrow> contains_insensitive desc search
                     | None \<Rightarrow> False))
            else True)
       | None \<Rightarrow> True) \<and>
      (case q_favorite q of
         Some favorite \<Rightarrow> w_isFavorite w = (toLowerCase favorite = ''true'')
       | None \<Rightarrow> True))"

record Pagination =
  pg_page :: nat
  pg_limit :: nat
  pg_total :: nat
  pg_totalPages :: "nat option"

record WorkoutList =
  l_data :: "WorkoutResponse list"
  l_pagination :: Pagination

text \<open>
  \<open>findMany\<close> orders the workouts by \<open>isFavorite\<close> descending, then \<open>updatedAt\<close>
  descending, and rejects a negative \<open>skip\<close>. \<open>Math.ceil(totalCount / limit)\<close> is not
  a number when \<open>limit\<close> is 0 and is then written \<open>null\<close>.
\<close>

definition GET_list :: "db \<Rightarrow> QueryParams \<Rightarrow> WorkoutList response" where
  "GET_list d q =
     (let skip = (int (q_page q) - 1) * int (q_limit q) in
      if skip < 0 then handleApiError PrismaValidationError
      else
        (let selected = filter (matches_where q) (workouts d);
             workouts = take (q_limit q) (drop (nat skip)
                          (sort_key (\<lambda>w. (\<not> w_isFavorite w, - int (w_updatedAt w))) selected));
             totalCount = length selected
         in createSuccessResponse
              \<lparr> l_data = map (\<lambda>w. workoutResponse False
                                    (with_relations ExercisesOrderByOrderAsc (Some (Some 1)) d w))
                             workouts,
                l_pagination = \<lparr> pg_page = q_page q, pg_limit = q_limit q,
                                 pg_total = totalCount,
                                 pg_totalPages =
                                   (if q_limit q = 0 then None
                                    else Some ((totalCount + q_limit q - 1) div q_limit q)) \<rparr> \<rparr>
              200))"

section \<open>Example store and payloads\<close>

definition squats :: Exercise where
  "squats = \<lparr> e_id = ''e1'', e_name = ''Squats'', e_reps = Some 10, e_sets = Some 4,
              e_duration = None, e_notes = None, e_workoutId = ''w1'', e_order = 1 \<rparr>"

definition lunges :: Exercise where
  "lunges = \<lparr> e_id = ''e2'', e_name = ''Lunges'', e_reps = None, e_sets = None,
              e_duration = Some ''30 seconds'', e_notes = None, e_workoutId = ''w1'',
              e_order = 0 \<rparr>"

definition leg_day :: Workout where
  "leg_day = \<lparr> w_id = ''w1'', w_name = ''Leg Day'', w_description = Some ''Lower body'',
               w_category = ''strength'', w_isFavorite = False, w_createdAt = 1,
               w_updatedAt = 1 \<rparr>"

definition gym :: db where
  "gym = \<lparr> workouts = [leg_day], exercises = [squats, lunges], completions = [],
           id_counter = 0, clock = 5 \<rparr>"

text \<open>The empty objects: every property is absent.\<close>

definition no_exercise :: ExercisePayload where
  "no_exercise = \<lparr> p_id = JUndefined, p_name = JUndefined, p_reps = JUndefined,
                   p_sets = JUndefined, p_duration = JUndefined, p_notes = JUndefined,
                   p_order = JUndefined, p_action = JUndefined \<rparr>"

definition no_body :: WorkoutPayload where
  "no_body = \<lparr> b_name = JUndefined, b_description = JUndefined, b_category = JUndefined,
               b_exercises = NoItems JUndefined \<rparr>"

definition no_directive :: UpdateExerciseData where
  "no_directive = \<lparr> u_id = None, u_name = None, u_reps = FAbsent, u_sets = FAbsent,
                    u_duration = FAbsent, u_notes = FAbsent, u_order = None,
                    u_action = None \<rparr>"

text \<open>
  The mixed update of the specification: exercise \<open>e1\<close> is renamed and a new exercise
  is sent with a creation marker; \<open>e2\<close> is not mentioned.
\<close>

definition mixed_update :: WorkoutPayload where
  "mixed_update =
     no_body \<lparr> b_exercises := Items
       [no_exercise \<lparr> p_id := JStr ''e1'', p_name := JStr ''Updated'' \<rparr>,
        no_exercise \<lparr> p_name := JStr ''New'', p_order := JNum 2,
                      p_action := JStr ''create'' \<rparr>] \<rparr>"

definition mixed_update_directives :: "UpdateExerciseData list" where
  "mixed_update_directives =
     [no_directive \<lparr> u_id := Some ''e1'', u_name := Some ''Updated'' \<rparr>,
      no_directive \<lparr> u_name := Some ''New'', u_order := Some (Num 2),
                     u_action := Some ''create'' \<rparr>]"

definition after_mixed_update :: db where
  "after_mixed_update =
     gym \<lparr> exercises :=
             [squats \<lparr> e_name := ''Updated'' \<rparr>,
              \<lparr> e_id = ''c0'', e_name = ''New'', e_reps = None, e_sets = None,
                e_duration = None, e_notes = None, e_workoutId = ''w1'', e_order = 2 \<rparr>],
           id_counter := 1 \<rparr>"

text \<open>A new exercise, then a delete directive whose id no row carries.\<close>

definition new_then_missing_delete :: WorkoutPayload where
  "new_then_missing_delete =
     no_body \<lparr> b_exercises := Items
       [no_exercise \<lparr> p_name := JStr ''New'' \<rparr>,
        no_exercise \<lparr> p_id := JStr ''nope'', p_action := JStr ''delete'' \<rparr>] \<rparr>"

definition new_then_missing_delete_directives :: "UpdateExerciseData list" where
  "new_then_missing_delete_directives =
     [no_directive \<lparr> u_name := Some ''New'' \<rparr>,
      no_directive \<lparr> u_id := Some ''nope'', u_action := Some ''delete'' \<rparr>]"

text \<open>One directive: delete \<open>e1\<close>.\<close>

definition delete_squats :: WorkoutPayload where
  "delete_squats =
     no_body \<lparr> b_exercises := Items
       [no_exercise \<lparr> p_id := JStr ''e1'', p_action := JStr ''delete'' \<rparr>] \<rparr>"

text \<open>Delete \<open>e1\<close> and rename \<open>e2\<close>.\<close>

definition patch_with_delete :: WorkoutPayload where
  "patch_with_delete =
     no_body \<lparr> b_exercises := Items
       [no_exercise \<lparr> p_id := JStr ''e1'', p_action := JStr ''delete'' \<rparr>,
        no_exercise \<lparr> p_id := JStr ''e2'', p_name := JStr ''Walking Lunges'' \<rparr>] \<rparr>"

definition patch_with_delete_directives :: "UpdateExerciseData list" where
  "patch_with_delete_directives =
     [no_directive \<lparr> u_id := Some ''e1'', u_action := Some ''delete'' \<rparr>,
      no_directive \<lparr> u_id := Some ''e2'', u_name := Some ''Walking Lunges'' \<rparr>]"

text \<open>A rename of the workout together with the failing batch.\<close>

definition rename_then_fail :: WorkoutPayload where
  "rename_then_fail = new_then_missing_delete \<lparr> b_name := JStr ''Legs'' \<rparr>"

definition rename_then_fail_validated :: UpdateWorkoutRequest where
  "rename_then_fail_validated =
     \<lparr> uw_name = Some ''Legs'', uw_description = FAbsent, uw_category = None,
       uw_exercises = Some new_then_missing_delete_directives \<rparr>"

definition gym_renamed :: db where
  "gym_renamed = gym \<lparr> workouts := [leg_day \<lparr> w_name := ''Legs'', w_updatedAt := 5 \<rparr>] \<rparr>"

text \<open>One directive: \<open>_action\<close> delete and no id.\<close>

definition delete_without_id :: WorkoutPayload where
  "delete_without_id =
     no_body \<lparr> b_exercises := Items [no_exercise \<lparr> p_action := JStr ''delete'' \<rparr>] \<rparr>"

definition untitled :: Exercise where
  "untitled = \<lparr> e_id = ''c0'', e_name = ''Untitled Exercise'', e_reps = None, e_sets = None,
                e_duration = None, e_notes = None, e_workoutId = ''w1'', e_order = 0 \<rparr>"

text \<open>An exercise entry whose name is one blank, and the creation payload around it.\<close>

definition blank_name :: ExercisePayload where
  "blank_name = no_exercise \<lparr> p_name := JStr '' '' \<rparr>"

definition squats_without_order :: WorkoutPayload where
  "squats_without_order =
     \<lparr> b_name = JStr ''Leg Day'', b_description = JUndefined, b_category = JStr ''strength'',
       b_exercises = Items [no_exercise \<lparr> p_name := JStr ''Squats'', p_sets := JNum 4,
                                          p_reps := JNum 10 \<rparr>] \<rparr>"

definition push_day :: WorkoutPayload where
  "push_day =
     \<lparr> b_name = JStr ''Push Day'', b_description = JUndefined, b_category = JStr ''Strength'',
       b_exercises = Items
         [no_exercise \<lparr> p_name := JStr ''Dips'', p_order := JNum 1 \<rparr>,
          no_exercise \<lparr> p_name := JStr ''Bench Press'', p_reps := JNum 8,
                        p_order := JNum 0 \<rparr>] \<rparr>"

text \<open>Exercise \<open>e1\<close> sent again with a creation marker, alone and before a failing delete.\<close>

definition recreate_squats_directive :: UpdateExerciseData where
  "recreate_squats_directive =
     no_directive \<lparr> u_id := Some ''e1'', u_name := Some ''Front Squats'',
                    u_action := Some ''create'' \<rparr>"

definition recreate_squats :: WorkoutPayload where
  "recreate_squats =
     no_body \<lparr> b_exercises := Items
       [no_exercise \<lparr> p_id := JStr ''e1'', p_name := JStr ''Front Squats'',
                      p_action := JStr ''create'' \<rparr>] \<rparr>"

definition recreate_then_missing_delete :: WorkoutPayload where
  "recreate_then_missing_delete =
     no_body \<lparr> b_exercises := Items
       [no_exercise \<lparr> p_id := JStr ''e1'', p_name := JStr ''Front Squats'',
                      p_action := JStr ''create'' \<rparr>,
        no_exercise \<lparr> p_id := JStr ''nope'', p_action := JStr ''delete'' \<rparr>] \<rparr>"

section \<open>The id generator returns unused ids\<close>

lemma of_char_digit_char: "n < 10 \<Longrightarrow> (of_char (digit_char n) :: nat) = 48 + n"
proof -
  assume "n < 10"
  then have "n \<in> {0, 1, 2, 3, 4, 5, 6, 7, 8, 9}" by auto
  then show ?thesis by (auto simp: digit_char_def)
qed

lemma string_to_nat_snoc: "string_to_nat (s @ [c]) = 10 * string_to_nat s + (of_char c - 48)"
  by (simp add: string_to_nat_def)

lemma string_to_nat_nat_to_string: "string_to_nat (nat_to_string n) = n"
proof (induction n rule: nat_to_string.induct)
  case (1 n)
  show ?case
  proof (cases "n < 10")
    case True
    then show ?thesis
      by (subst nat_to_string.simps) (simp add: string_to_nat_def of_char_digit_char)
  next
    case False
    have d: "digit_char n = digit_char (n mod 10)" by (simp add: digit_char_def)
    have "string_to_nat (nat_to_string n) = 10 * (n div 10) + n mod 10"
      using False "1.IH"
      by (subst nat_to_string.simps) (simp add: string_to_nat_snoc d of_char_digit_char)
    then show ?thesis by simp
  qed
qed

lemma cuid_inj: "cuid m = cuid n \<Longrightarrow> m = n"
  by (metis cuid_def list.inject string_to_nat_nat_to_string)

lemma finite_cuid_used: "finite {k. c \<le> k \<and> cuid k \<in> set used}"
proof (rule finite_subset)
  show "{k. c \<le> k \<and> cuid k \<in> set used} \<subseteq> cuid -` set used" by auto
  show "finite (cuid -` set used)"
    by (rule finite_vimageI) (auto simp: inj_on_def dest: cuid_inj)
qed

text \<open>With as much fuel as candidates in use, the search ends on an unused one.\<close>

lemma first_unused_fresh:
  "card {k. c \<le> k \<and> cuid k \<in> set used} \<le> fuel \<Longrightarrow>
     cuid (first_unused used c fuel) \<notin> set used"
proof (induction fuel arbitrary: c)
  case 0
  with finite_cuid_used [of c used] have "{k. c \<le> k \<and> cuid k \<in> set used} = {}" by simp
  then show ?case by auto
next
  case (Suc fuel)
  show ?case
  proof (cases "cuid c \<in> set used")
    case False
    then show ?thesis by simp
  next
    case True
    have eq: "{k. Suc c \<le> k \<and> cuid k \<in> set used} = {k. c \<le> k \<and> cuid k \<in> set used} - {c}"
      by auto
    have "c \<in> {k. c \<le> k \<and> cuid k \<in> set used}" using True by simp
    then have "card ({k. c \<le> k \<and> cuid k \<in> set used} - {c})
                 < card {k. c \<le> k \<and> cuid k \<in> set used}"
      using finite_cuid_used by (rule card_Diff1_less [rotated])
    then have "card {k. Suc c \<le> k \<and> cuid k \<in> set used} \<le> fuel"
      using Suc.prems eq by simp
    from Suc.IH [OF this] True show ?thesis by simp
  qed
qed

lemma next_id_fresh: "cuid (next_id used c) \<notin> set used"
proof -
  have fin: "finite (cuid -` set used)"
    by (rule finite_vimageI) (auto simp: inj_on_def dest: cuid_inj)
  have "card {k. c \<le> k \<and> cuid k \<in> set used} \<le> card (cuid -` set used)"
    by (rule card_mono [OF fin]) auto
  also have "\<dots> = card (cuid ` (cuid -` set used))"
    by (rule card_image [symmetric]) (auto simp: inj_on_def dest: cuid_inj)
  also have "\<dots> \<le> card (set used)"
    by (rule card_mono) auto
  also have "\<dots> \<le> length used" by (rule card_length)
  finally show ?thesis unfolding next_id_def by (rule first_unused_fresh)
qed

section \<open>What the operations on exercises do to the table\<close>

lemma exercise_delete_Inr:
  "exercise_delete d i = Inr d' \<Longrightarrow> exercises d' = filter (\<lambda>e. e_id e \<noteq> i) (exercises d)"
  by (auto simp: exercise_delete_def split: if_splits)

lemma e_id_apply_exercise_update [simp]: "e_id (apply_exercise_update data e) = e_id e"
  by (simp add: apply_exercise_update_def)

lemma exercise_update_Inr:
  "exercise_update d i data = Inr d' \<Longrightarrow> map e_id (exercises d') = map e_id (exercises d)"
  by (auto simp: exercise_update_def split: if_splits)

lemma exercise_create_exercises:
  "exercises (fst (exercise_create d data)) = exercises d @ [snd (exercise_create d data)]"
  by (simp add: exercise_create_def Let_def)

lemma exercise_create_fresh:
  "e_id (snd (exercise_create d data)) \<notin> e_id ` set (exercises d)"
  using next_id_fresh [of "map e_id (exercises d)" "id_counter d"]
  by (simp add: exercise_create_def Let_def new_exercise_def)

lemma has_id_u_id: "has_id u \<Longrightarrow> u_id u = Some (id_of u)"
  by (auto simp: has_id_def id_of_def split: option.splits)

text \<open>The create branch of the dispatch.\<close>

lemma dispatch_create:
  assumes "\<not> (u_action u = Some ''delete'' \<and> has_id u)" and "\<not> (has_id u \<and> id_of u \<in> ex)"
  shows "\<exists>tx' row. dispatch wid ex (tx, upd) u = Inr (tx', insert (e_id row) upd) \<and>
           exercises tx' = exercises tx @ [row] \<and>
           e_id row \<notin> e_id ` set (exercises tx) \<and>
           e_workoutId row = wid \<and>
           e_name row = name_or_default (u_name u) \<and>
           e_order row = order_or_default (u_order u)"
proof -
  let ?data = "\<lparr> xc_workoutId = wid, xc_name = name_or_default (u_name u),
                 xc_order = order_or_default (u_order u),
                 xc_reps = u_reps u, xc_sets = u_sets u,
                 xc_duration = u_duration u, xc_notes = u_notes u \<rparr>"
  let ?c = "exercise_create tx ?data"
  have "dispatch wid ex (tx, upd) u = Inr (fst ?c, insert (e_id (snd ?c)) upd)"
    using assms by (auto simp: dispatch_def Let_def)
  moreover have "exercises (fst ?c) = exercises tx @ [snd ?c]"
    by (rule exercise_create_exercises)
  moreover have "e_id (snd ?c) \<notin> e_id ` set (exercises tx)"
    by (rule exercise_create_fresh)
  moreover have "e_workoutId (snd ?c) = wid \<and> e_name (snd ?c) = name_or_default (u_name u) \<and>
                 e_order (snd ?c) = order_or_default (u_order u)"
    by (simp add: exercise_create_def Let_def new_exercise_def)
  ultimately show ?thesis by blast
qed

text \<open>The update branch of the dispatch.\<close>

lemma dispatch_update:
  assumes "\<not> (u_action u = Some ''delete'' \<and> has_id u)" and "has_id u" and "id_of u \<in> ex"
    and "dispatch wid ex (tx, upd) u = Inr (tx', upd')"
  shows "exercises tx' =
           map (\<lambda>e. if e_id e = id_of u
                     then apply_exercise_update
                            \<lparr> xu_name = u_name u, xu_reps = u_reps u, xu_sets = u_sets u,
                              xu_duration = u_duration u, xu_notes = u_notes u,
                              xu_order = u_order u \<rparr> e
                     else e) (exercises tx) \<and>
         upd' = insert (id_of u) upd"
proof -
  let ?data = "\<lparr> xu_name = u_name u, xu_reps = u_reps u, xu_sets = u_sets u,
                 xu_duration = u_duration u, xu_notes = u_notes u, xu_order = u_order u \<rparr>"
  show ?thesis
  proof (cases "length (update_keys ?data) > 0")
    case True
    with assms show ?thesis
      by (auto simp: dispatch_def Let_def exercise_update_def split: sum.splits if_splits)
  next
    case False
    then have none: "u_name u = None" "u_reps u = FAbsent" "u_sets u = FAbsent"
      "u_duration u = FAbsent" "u_notes u = FAbsent" "u_order u = None"
      by (auto simp: update_keys_def split: if_splits)
    have idm: "\<And>e. apply_exercise_update ?data e = e"
      by (simp add: apply_exercise_update_def none)
    from False assms have "tx' = tx" "upd' = insert (id_of u) upd"
      by (auto simp: dispatch_def Let_def)
    then show ?thesis by (simp add: idm map_idI)
  qed
qed

text \<open>The three outcomes of a dispatch that does not fail.\<close>

lemma dispatch_Inr_cases:
  assumes "dispatch wid ex (tx, upd) u = Inr (tx', upd')"
  shows "(u_action u = Some ''delete'' \<and> has_id u \<and>
            exercises tx' = filter (\<lambda>e. e_id e \<noteq> id_of u) (exercises tx) \<and> upd' = upd)
         \<or> (has_id u \<and> id_of u \<in> ex \<and> map e_id (exercises tx') = map e_id (exercises tx) \<and>
            upd' = insert (id_of u) upd)
         \<or> (\<exists>row. exercises tx' = exercises tx @ [row] \<and>
              e_id row \<notin> e_id ` set (exercises tx) \<and> upd' = insert (e_id row) upd)"
proof (cases "u_action u = Some ''delete'' \<and> has_id u")
  case True
  with assms show ?thesis
    by (auto simp: dispatch_def dest: exercise_delete_Inr split: sum.splits)
next
  case nd: False
  show ?thesis
  proof (cases "has_id u \<and> id_of u \<in> ex")
    case True
    with nd assms show ?thesis
      by (auto simp: dispatch_def Let_def dest: exercise_update_Inr split: sum.splits if_splits)
  next
    case False
    from dispatch_create [OF nd False, of wid tx upd] assms show ?thesis by auto
  qed
qed

text \<open>An exercise that no directive names stays in the table and is never recorded.\<close>

lemma dispatch_all_unreferenced:
  assumes "dispatch_all wid ex (tx, upd) us = Inr (tx', upd')"
    and "\<forall>u\<in>set us. u_id u \<noteq> Some i"
    and "i \<in> e_id ` set (exercises tx)"
    and "i \<notin> upd"
  shows "i \<in> e_id ` set (exercises tx') \<and> i \<notin> upd'"
  using assms
proof (induction us arbitrary: tx upd)
  case Nil
  then show ?case by simp
next
  case (Cons u us)
  from Cons.prems(1) obtain tx1 upd1 where
    step: "dispatch wid ex (tx, upd) u = Inr (tx1, upd1)" and
    rest: "dispatch_all wid ex (tx1, upd1) us = Inr (tx', upd')"
    by (auto split: sum.splits)
  have nu: "u_id u \<noteq> Some i" using Cons.prems(2) by simp
  have "i \<in> e_id ` set (exercises tx1) \<and> i \<notin> upd1"
    using dispatch_Inr_cases [OF step] Cons.prems(3,4) nu
    by (auto dest: has_id_u_id) (metis image_eqI list.set_map)+
  with Cons.IH [OF rest] Cons.prems(2) show ?case by simp
qed

text \<open>Only a delete directive removes the exercise it names.\<close>

lemma dispatch_all_keeps:
  assumes "dispatch_all wid ex (tx, upd) us = Inr (tx', upd')"
    and "\<forall>u\<in>set us. \<not> (u_action u = Some ''delete'' \<and> u_id u = Some i)"
    and "i \<in> e_id ` set (exercises tx)"
  shows "i \<in> e_id ` set (exercises tx')"
  using assms
proof (induction us arbitrary: tx upd)
  case Nil
  then show ?case by simp
next
  case (Cons u us)
  from Cons.prems(1) obtain tx1 upd1 where
    step: "dispatch wid ex (tx, upd) u = Inr (tx1, upd1)" and
    rest: "dispatch_all wid ex (tx1, upd1) us = Inr (tx', upd')"
    by (auto split: sum.splits)
  have nu: "\<not> (u_action u = Some ''delete'' \<and> u_id u = Some i)" using Cons.prems(2) by simp
  have "i \<in> e_id ` set (exercises tx1)"
    using dispatch_Inr_cases [OF step] Cons.prems(3) nu
    by (auto dest: has_id_u_id) (metis image_eqI list.set_map)+
  with Cons.IH [OF rest] Cons.prems(2) show ?case by simp
qed

text \<open>Replacement: what a completed reconciliation with a creation marker removes.\<close>

lemma handleExerciseUpdates_replace:
  assumes run: "handleExerciseUpdates tx wid us existing = Inr tx'"
    and marker: "hasCompleteExerciseList us"
    and pre: "e \<in> set existing" "e_id e \<in> e_id ` set (exercises tx)"
    and unref: "\<forall>u\<in>set us. u_id u \<noteq> Some (e_id e)"
  shows "e_id e \<notin> e_id ` set (exercises tx')"
proof -
  from run obtain st where
    da: "dispatch_all wid (set (map e_id existing)) (tx, {}) us = Inr st" and
    fin: "tx' = (let toDelete = exercisesToDelete us existing (snd st)
                 in if hasCompleteExerciseList us \<and> toDelete \<noteq> []
                      then exercise_deleteMany (fst st) (map e_id toDelete) else fst st)"
    by (auto simp: handleExerciseUpdates_def Let_def split: sum.splits if_splits)
  obtain tx2 upd where st: "st = (tx2, upd)" by (cases st)
  have "e_id e \<notin> upd"
    using dispatch_all_unreferenced [OF da [unfolded st] unref pre(2)] by simp
  then have "e \<in> set (exercisesToDelete us existing upd)"
    using pre(1) unref by (auto simp: exercisesToDelete_def list_ex_iff)
  then have "exercisesToDelete us existing upd \<noteq> []"
    and "e_id e \<in> set (map e_id (exercisesToDelete us existing upd))"
    by auto
  then have "exercises tx' =
               filter (\<lambda>x. e_id x \<notin> set (map e_id (exercisesToDelete us existing upd)))
                      (exercises tx2)"
    and "e_id e \<in> set (map e_id (exercisesToDelete us existing upd))"
    using fin st marker by (simp_all add: Let_def exercise_deleteMany_def)
  then show ?thesis by auto
qed

text \<open>Patch: a completed reconciliation without a creation marker removes nothing else.\<close>

lemma handleExerciseUpdates_keeps:
  assumes run: "handleExerciseUpdates tx wid us existing = Inr tx'"
    and patch: "\<not> hasCompleteExerciseList us"
    and keep: "\<forall>u\<in>set us. \<not> (u_action u = Some ''delete'' \<and> u_id u = Some i)"
    and pre: "i \<in> e_id ` set (exercises tx)"
  shows "i \<in> e_id ` set (exercises tx')"
proof -
  from run patch obtain st where
    da: "dispatch_all wid (set (map e_id existing)) (tx, {}) us = Inr st" and
    fin: "tx' = fst st"
    by (auto simp: handleExerciseUpdates_def Let_def split: sum.splits if_splits)
  obtain tx2 upd where st: "st = (tx2, upd)" by (cases st)
  show ?thesis
    using dispatch_all_keeps [OF da [unfolded st] keep pre] fin st by simp
qed

section \<open>The paths through PUT\<close>

lemma handleApiError_is_error: "\<exists>s a. handleApiError e = ErrorResponse s a"
  by (cases e) (auto simp: handleApiError_def handlePrismaError_def createErrorResponse_def)

lemma update_basic_fields_Inr:
  "update_basic_fields wid v d = Inr tx1 \<Longrightarrow>
     exercises tx1 = exercises d \<and> id_counter tx1 = id_counter d \<and> completions tx1 = completions d"
  by (auto simp: update_basic_fields_def workout_update_def Let_def split: if_splits option.splits)

text \<open>
  Every path through \<open>PUT\<close> ends with an error response and the store as it was, or with
  the store that the transaction reached.
\<close>

lemma PUT_cases:
  assumes "PUT d wid body = (d', resp)"
  shows "(d' = d \<and> (\<exists>s a. resp = ErrorResponse s a))
         \<or> (\<exists>v tx1. validateUpdateWorkout body = Inr v \<and> update_basic_fields wid v d = Inr tx1 \<and>
               (case uw_exercises v of
                  Some us \<Rightarrow>
                    handleExerciseUpdates tx1 wid us (include_exercises ExercisesTrue d wid) = Inr d'
                | None \<Rightarrow> d' = tx1) \<and>
               (\<forall>s r. resp = SuccessResponse s r \<longrightarrow>
                  (\<exists>w. r = workoutResponse False
                             (with_relations ExercisesOrderByOrderAsc (Some (Some 1)) d' w))))"
proof (cases "workout_findUnique d wid")
  case None
  with assms show ?thesis by (auto simp: PUT_def createErrorResponse_def)
next
  case (Some w)
  show ?thesis
  proof (cases "validateUpdateWorkout body")
    case (Inl e)
    with Some assms handleApiError_is_error [of e] show ?thesis by (auto simp: PUT_def)
  next
    case (Inr v)
    show ?thesis
    proof (cases "PUT_transaction wid v (include_exercises ExercisesTrue d wid) d")
      case (Inl e)
      with Some Inr assms handleApiError_is_error [of e] show ?thesis
        by (auto simp: PUT_def transaction_def)
    next
      case tr: (Inr res)
      obtain tx2 ow where res: "res = (tx2, ow)" by (cases res)
      from tr res obtain tx1 where
        b: "update_basic_fields wid v d = Inr tx1" and
        h: "(case uw_exercises v of
               Some us \<Rightarrow> handleExerciseUpdates tx1 wid us (include_exercises ExercisesTrue d wid)
             | None \<Rightarrow> Inr tx1) = Inr tx2" and
        ow: "ow = map_option (with_relations ExercisesOrderByOrderAsc (Some (Some 1)) tx2)
                             (workout_findUnique tx2 wid)"
        by (auto simp: PUT_transaction_def split: sum.splits)
      have d': "d' = tx2"
        using Some Inr tr res assms by (auto simp: PUT_def transaction_def split: option.splits)
      have r: "\<forall>s r. resp = SuccessResponse s r \<longrightarrow>
                  (\<exists>w. r = workoutResponse False
                             (with_relations ExercisesOrderByOrderAsc (Some (Some 1)) d' w))"
        using Some Inr tr res assms ow d'
        by (auto simp: PUT_def transaction_def createSuccessResponse_def createErrorResponse_def
                 split: option.splits)
      have "(case uw_exercises v of
               Some us \<Rightarrow>
                 handleExerciseUpdates tx1 wid us (include_exercises ExercisesTrue d wid) = Inr d'
             | None \<Rightarrow> d' = tx1)"
        using h d' by (auto split: option.splits)
      with Inr b r show ?thesis by blast
    qed
  qed
qed

lemma response_exercise_ids:
  "er_id ` set (r_exercises (workoutResponse h (with_relations inc c d w)))
     \<subseteq> e_id ` set (exercises d)"
  by (cases inc)
     (auto simp: workoutResponse_def with_relations_def include_exercises_def exerciseResponse_def)

lemma PUT_replace:
  assumes valid: "validateUpdateWorkout body = Inr v" and ex: "uw_exercises v = Some us"
    and marker: "hasCompleteExerciseList us"
    and ok: "PUT d wid body = (d', SuccessResponse s r)"
    and pre: "e \<in> set (exercises d)" "e_workoutId e = wid"
    and unref: "\<forall>u\<in>set us. u_id u \<noteq> Some (e_id e)"
  shows "e_id e \<notin> e_id ` set (exercises d') \<and> e_id e \<notin> er_id ` set (r_exercises r)"
proof -
  from PUT_cases [OF ok] valid ex obtain tx1 w where
    b: "update_basic_fields wid v d = Inr tx1" and
    h: "handleExerciseUpdates tx1 wid us (include_exercises ExercisesTrue d wid) = Inr d'" and
    r: "r = workoutResponse False (with_relations ExercisesOrderByOrderAsc (Some (Some 1)) d' w)"
    by auto
  have "e \<in> set (include_exercises ExercisesTrue d wid)"
    using pre by (simp add: include_exercises_def)
  moreover have "e_id e \<in> e_id ` set (exercises tx1)"
    using update_basic_fields_Inr [OF b] pre(1) by simp
  ultimately have gone: "e_id e \<notin> e_id ` set (exercises d')"
    using handleExerciseUpdates_replace [OF h marker _ _ unref] by blast
  with response_exercise_ids [of False ExercisesOrderByOrderAsc "Some (Some 1)" d' w] r
  show ?thesis by blast
qed

lemma PUT_keeps:
  assumes valid: "validateUpdateWorkout body = Inr v" and ex: "uw_exercises v = Some us"
    and patch: "\<forall>u\<in>set us. has_id u \<and> u_action u \<noteq> Some ''create''"
    and run: "PUT d wid body = (d', resp)"
    and pre: "e \<in> set (exercises d)"
    and keep: "\<forall>u\<in>set us. \<not> (u_action u = Some ''delete'' \<and> u_id u = Some (e_id e))"
  shows "e_id e \<in> e_id ` set (exercises d')"
proof -
  have np: "\<not> hasCompleteExerciseList us"
    using patch by (auto simp: hasCompleteExerciseList_def list_ex_iff)
  from PUT_cases [OF run] show ?thesis
  proof
    assume "d' = d \<and> (\<exists>s a. resp = ErrorResponse s a)"
    with pre show ?thesis by auto
  next
    assume "\<exists>v tx1. validateUpdateWorkout body = Inr v \<and> update_basic_fields wid v d = Inr tx1 \<and>
               (case uw_exercises v of
                  Some us \<Rightarrow>
                    handleExerciseUpdates tx1 wid us (include_exercises ExercisesTrue d wid) = Inr d'
                | None \<Rightarrow> d' = tx1) \<and>
               (\<forall>s r. resp = SuccessResponse s r \<longrightarrow>
                  (\<exists>w. r = workoutResponse False
                             (with_relations ExercisesOrderByOrderAsc (Some (Some 1)) d' w)))"
    with valid ex obtain tx1 where
      b: "update_basic_fields wid v d = Inr tx1" and
      h: "handleExerciseUpdates tx1 wid us (include_exercises ExercisesTrue d wid) = Inr d'"
      by auto
    have "e_id e \<in> e_id ` set (exercises tx1)"
      using update_basic_fields_Inr [OF b] pre by simp
    from handleExerciseUpdates_keeps [OF h np keep this] show ?thesis .
  qed
qed

lemma PUT_rollback:
  assumes found: "workout_findUnique d wid = Some w"
    and valid: "validateUpdateWorkout body = Inr v"
    and basic: "update_basic_fields wid v d = Inr tx1"
    and ex: "uw_exercises v = Some us"
    and fail: "handleExerciseUpdates tx1 wid us (include_exercises ExercisesTrue d wid) = Inl e"
  shows "PUT d wid body = (d, handleApiError e)"
  using assms by (simp add: PUT_def transaction_def PUT_transaction_def)

text \<open>A delete directive whose id no row carries makes the reconciliation fail.\<close>

lemma dispatch_delete_missing:
  assumes "u_action u = Some ''delete''" and "has_id u"
    and "id_of u \<notin> e_id ` set (exercises tx)"
  shows "dispatch wid ex (tx, upd) u = Inl (PrismaKnownError ''P2025'')"
  using assms by (force simp: dispatch_def exercise_delete_def list_ex_iff)

section \<open>Replacement and partial patch\<close>

text \<open>
  Claim C1, as amended. For every update payload that passes validation and whose
  exercises array holds at least one directive with no id (the code reads an empty id as
  none) or with \<open>_action\<close> "create", applied to an existing workout: when the call
  succeeds, every exercise of the workout that existed before the call and whose id no
  directive of the payload carries is deleted. It is absent from the table afterwards
  and from the exercises of the response.
\<close>

theorem replace_removes_unreferenced:
  assumes "validateUpdateWorkout body = Inr v" and "uw_exercises v = Some us"
    and "\<exists>u\<in>set us. \<not> has_id u \<or> u_action u = Some ''create''"
    and "PUT d wid body = (d', SuccessResponse s r)"
    and "e \<in> set (exercises d)" and "e_workoutId e = wid"
    and "\<forall>u\<in>set us. u_id u \<noteq> Some (e_id e)"
  shows "e_id e \<notin> e_id ` set (exercises d') \<and> e_id e \<notin> er_id ` set (r_exercises r)"
proof -
  have "hasCompleteExerciseList us"
    using assms(3) by (simp add: hasCompleteExerciseList_def list_ex_iff)
  from PUT_replace [OF assms(1,2) this assms(4-7)] show ?thesis .
qed

theorem replace_removes_unreferenced_witness:
  "validateUpdateWorkout mixed_update =
     Inr \<lparr> uw_name = None, uw_description = FAbsent, uw_category = None,
           uw_exercises = Some mixed_update_directives \<rparr> \<and>
   list_ex (\<lambda>u. \<not> has_id u \<or> u_action u = Some ''create'') mixed_update_directives \<and>
   PUT gym ''w1'' mixed_update =
     (after_mixed_update,
      SuccessResponse 200
        (workoutResponse False
           (with_relations ExercisesOrderByOrderAsc (Some (Some 1)) after_mixed_update leg_day))) \<and>
   lunges \<in> set (exercises gym) \<and> e_workoutId lunges = ''w1'' \<and>
   list_all (\<lambda>u. u_id u \<noteq> Some (e_id lunges)) mixed_update_directives \<and>
   e_id lunges \<notin> e_id ` set (exercises after_mixed_update) \<and>
   e_id lunges \<notin> er_id ` set (r_exercises
     (workoutResponse False
        (with_relations ExercisesOrderByOrderAsc (Some (Some 1)) after_mixed_update leg_day)))"
proof -
  let ?v = "\<lparr> uw_name = None, uw_description = FAbsent, uw_category = None,
              uw_exercises = Some mixed_update_directives \<rparr>"
  have valid: "validateUpdateWorkout mixed_update = Inr ?v" by code_simp
  have ex: "uw_exercises ?v = Some mixed_update_directives" by simp
  have marker: "list_ex (\<lambda>u. \<not> has_id u \<or> u_action u = Some ''create'') mixed_update_directives"
    by code_simp
  have ok: "PUT gym ''w1'' mixed_update =
     (after_mixed_update,
      SuccessResponse 200
        (workoutResponse False
           (with_relations ExercisesOrderByOrderAsc (Some (Some 1)) after_mixed_update leg_day)))"
    by code_simp
  have pre: "lunges \<in> set (exercises gym)" "e_workoutId lunges = ''w1''"
    by (simp_all add: gym_def lunges_def)
  have unref: "list_all (\<lambda>u. u_id u \<noteq> Some (e_id lunges)) mixed_update_directives"
    by code_simp
  from replace_removes_unreferenced [OF valid ex _ ok pre] marker unref
  have "e_id lunges \<notin> e_id ` set (exercises after_mixed_update) \<and>
        e_id lunges \<notin> er_id ` set (r_exercises
          (workoutResponse False
             (with_relations ExercisesOrderByOrderAsc (Some (Some 1)) after_mixed_update leg_day)))"
    by (simp add: list_ex_iff list_all_iff)
  with valid marker ok pre unref show ?thesis by simp
qed

text \<open>
  The claim as it was stated fails where the call fails: the payload below passes
  validation and holds a directive with no id, no directive names exercise \<open>e1\<close>,
  and \<open>e1\<close> is still stored after the call, which was rolled back and answered 404.
\<close>

theorem replace_undone_by_failing_batch:
  "validateUpdateWorkout new_then_missing_delete =
     Inr \<lparr> uw_name = None, uw_description = FAbsent, uw_category = None,
           uw_exercises = Some new_then_missing_delete_directives \<rparr> \<and>
   hasCompleteExerciseList new_then_missing_delete_directives \<and>
   workout_findUnique gym ''w1'' = Some leg_day \<and>
   squats \<in> set (exercises gym) \<and> e_workoutId squats = ''w1'' \<and>
   list_all (\<lambda>u. u_id u \<noteq> Some (e_id squats)) new_then_missing_delete_directives \<and>
   PUT gym ''w1'' new_then_missing_delete =
     (gym, ErrorResponse 404 \<lparr> ae_error = ''Not Found'', ae_message = ''Record not found'',
                               ae_details = None \<rparr>) \<and>
   e_id squats \<in> e_id ` set (exercises (fst (PUT gym ''w1'' new_then_missing_delete)))"
  by code_simp

text \<open>
  Claim C2, as amended. For every update payload that passes validation, in which
  every directive carries a non-empty id and none carries \<open>_action\<close> "create": whatever
  the number of directives and the outcome of the call, no exercise is deleted other
  than those that a directive with \<open>_action\<close> "delete" names.
\<close>

theorem patch_keeps_other_exercises:
  assumes "validateUpdateWorkout body = Inr v" and "uw_exercises v = Some us"
    and "\<forall>u\<in>set us. has_id u \<and> u_action u \<noteq> Some ''create''"
    and "PUT d wid body = (d', resp)"
    and "e \<in> set (exercises d)"
    and "\<forall>u\<in>set us. \<not> (u_action u = Some ''delete'' \<and> u_id u = Some (e_id e))"
  shows "e_id e \<in> e_id ` set (exercises d')"
  using assms by (rule PUT_keeps)

theorem patch_keeps_other_exercises_witness:
  "validateUpdateWorkout patch_with_delete =
     Inr \<lparr> uw_name = None, uw_description = FAbsent, uw_category = None,
           uw_exercises = Some patch_with_delete_directives \<rparr> \<and>
   list_all (\<lambda>u. has_id u \<and> u_action u \<noteq> Some ''create'') patch_with_delete_directives \<and>
   lunges \<in> set (exercises gym) \<and>
   list_all (\<lambda>u. \<not> (u_action u = Some ''delete'' \<and> u_id u = Some (e_id lunges)))
     patch_with_delete_directives \<and>
   exercises (fst (PUT gym ''w1'' patch_with_delete)) = [lunges \<lparr> e_name := ''Walking Lunges'' \<rparr>] \<and>
   e_id lunges \<in> e_id ` set (exercises (fst (PUT gym ''w1'' patch_with_delete)))"
proof -
  let ?v = "\<lparr> uw_name = None, uw_description = FAbsent, uw_category = None,
              uw_exercises = Some patch_with_delete_directives \<rparr>"
  have valid: "validateUpdateWorkout patch_with_delete = Inr ?v" by code_simp
  have ex: "uw_exercises ?v = Some patch_with_delete_directives" by simp
  have patch: "list_all (\<lambda>u. has_id u \<and> u_action u \<noteq> Some ''create'') patch_with_delete_directives"
    by code_simp
  have run: "PUT gym ''w1'' patch_with_delete =
               (fst (PUT gym ''w1'' patch_with_delete), snd (PUT gym ''w1'' patch_with_delete))"
    by simp
  have pre: "lunges \<in> set (exercises gym)" by (simp add: gym_def)
  have keep: "list_all (\<lambda>u. \<not> (u_action u = Some ''delete'' \<and> u_id u = Some (e_id lunges)))
                patch_with_delete_directives"
    by code_simp
  have after: "exercises (fst (PUT gym ''w1'' patch_with_delete))
                 = [lunges \<lparr> e_name := ''Walking Lunges'' \<rparr>]"
    by code_simp
  from patch_keeps_other_exercises [OF valid ex _ run pre] patch keep
  have "e_id lunges \<in> e_id ` set (exercises (fst (PUT gym ''w1'' patch_with_delete)))"
    by (simp add: list_all_iff)
  with valid patch pre keep after show ?thesis by simp
qed

text \<open>
  The claim as it was stated fails on a delete directive: the only directive of the
  payload below carries the id of the existing exercise \<open>e1\<close>, no directive lacks an
  id, and \<open>e1\<close> is deleted by the call.
\<close>

theorem patch_delete_directive_deletes:
  "validateUpdateWorkout delete_squats =
     Inr \<lparr> uw_name = None, uw_description = FAbsent, uw_category = None,
           uw_exercises = Some [no_directive \<lparr> u_id := Some ''e1'', u_action := Some ''delete'' \<rparr>] \<rparr> \<and>
   list_all (\<lambda>u. has_id u \<and> id_of u \<in> e_id ` set (include_exercises ExercisesTrue gym ''w1''))
     [no_directive \<lparr> u_id := Some ''e1'', u_action := Some ''delete'' \<rparr>] \<and>
   squats \<in> set (exercises gym) \<and> e_workoutId squats = ''w1'' \<and>
   exercises (fst (PUT gym ''w1'' delete_squats)) = [lunges] \<and>
   e_id squats \<notin> e_id ` set (exercises (fst (PUT gym ''w1'' delete_squats)))"
  by code_simp

section \<open>Atomicity\<close>

text \<open>
  Claim C3. If an operation dispatched during the reconciliation of the exercises
  fails, then nothing of the call is persisted: \<open>PUT\<close> returns the store as it was before
  the call, without the directives of the batch and without the change of the workout's
  own fields that was made first, and the caller receives one error response, the one
  made from the failure. A delete directive whose id no row carries is such a failure
  (\<open>dispatch_delete_missing\<close>).
\<close>

theorem failed_reconciliation_rolls_back:
  assumes "workout_findUnique d wid = Some w"
    and "validateUpdateWorkout body = Inr v"
    and "update_basic_fields wid v d = Inr tx1"
    and "uw_exercises v = Some us"
    and "handleExerciseUpdates tx1 wid us (include_exercises ExercisesTrue d wid) = Inl e"
  shows "PUT d wid body = (d, handleApiError e) \<and>
         (\<exists>s a. handleApiError e = (ErrorResponse s a :: WorkoutResponse response))"
  using PUT_rollback [OF assms] handleApiError_is_error by simp

theorem failed_reconciliation_rolls_back_witness:
  "workout_findUnique gym ''w1'' = Some leg_day \<and>
   validateUpdateWorkout rename_then_fail = Inr rename_then_fail_validated \<and>
   update_basic_fields ''w1'' rename_then_fail_validated gym = Inr gym_renamed \<and>
   handleExerciseUpdates gym_renamed ''w1'' new_then_missing_delete_directives
       (include_exercises ExercisesTrue gym ''w1'') = Inl (PrismaKnownError ''P2025'') \<and>
   PUT gym ''w1'' rename_then_fail =
     (gym, ErrorResponse 404 \<lparr> ae_error = ''Not Found'', ae_message = ''Record not found'',
                               ae_details = None \<rparr>)"
proof -
  have found: "workout_findUnique gym ''w1'' = Some leg_day" by code_simp
  have valid: "validateUpdateWorkout rename_then_fail = Inr rename_then_fail_validated"
    by code_simp
  have basic: "update_basic_fields ''w1'' rename_then_fail_validated gym = Inr gym_renamed"
    by code_simp
  have ex: "uw_exercises rename_then_fail_validated = Some new_then_missing_delete_directives"
    by (simp add: rename_then_fail_validated_def)
  have fail: "handleExerciseUpdates gym_renamed ''w1'' new_then_missing_delete_directives
                (include_exercises ExercisesTrue gym ''w1'') = Inl (PrismaKnownError ''P2025'')"
    by code_simp
  have resp: "(handleApiError (PrismaKnownError ''P2025'') :: WorkoutResponse response) =
                ErrorResponse 404 \<lparr> ae_error = ''Not Found'', ae_message = ''Record not found'',
                                    ae_details = None \<rparr>"
    by code_simp
  from failed_reconciliation_rolls_back [OF found valid basic ex fail] resp
  have "PUT gym ''w1'' rename_then_fail =
     (gym, ErrorResponse 404 \<lparr> ae_error = ''Not Found'', ae_message = ''Record not found'',
                               ae_details = None \<rparr>)"
    by simp
  with found valid basic fail show ?thesis by simp
qed

section \<open>Dispatch of one directive\<close>

text \<open>
  Claim C4, as amended. A directive with \<open>_action\<close> "delete" and no id is neither
  rejected nor skipped. It does not reach the delete branch, so the dispatch deletes no
  exercise; it falls through to the create branch, which inserts exactly one new
  exercise owned by the workout; and, having no id, it marks its batch as a complete
  list.
\<close>

theorem delete_without_id_creates:
  assumes "u_action u = Some ''delete''" and "\<not> has_id u" and "u \<in> set us"
  shows "(\<exists>tx' row. dispatch wid ex (tx, upd) u = Inr (tx', insert (e_id row) upd) \<and>
            exercises tx' = exercises tx @ [row] \<and>
            e_id row \<notin> e_id ` set (exercises tx) \<and> e_workoutId row = wid) \<and>
         hasCompleteExerciseList us"
proof -
  have "\<not> (u_action u = Some ''delete'' \<and> has_id u)" and "\<not> (has_id u \<and> id_of u \<in> ex)"
    using assms(2) by simp_all
  from dispatch_create [OF this, of wid tx upd]
  have "\<exists>tx' row. dispatch wid ex (tx, upd) u = Inr (tx', insert (e_id row) upd) \<and>
            exercises tx' = exercises tx @ [row] \<and>
            e_id row \<notin> e_id ` set (exercises tx) \<and> e_workoutId row = wid"
    by blast
  moreover have "hasCompleteExerciseList us"
    using assms(2,3) by (auto simp: hasCompleteExerciseList_def list_ex_iff)
  ultimately show ?thesis by blast
qed

theorem delete_without_id_creates_witness:
  "u_action (no_directive \<lparr> u_action := Some ''delete'' \<rparr>) = Some ''delete'' \<and>
   \<not> has_id (no_directive \<lparr> u_action := Some ''delete'' \<rparr>) \<and>
   (\<exists>tx' row. dispatch ''w1'' {''e1'', ''e2''} (gym, {}) (no_directive \<lparr> u_action := Some ''delete'' \<rparr>)
                 = Inr (tx', insert (e_id row) {}) \<and>
              exercises tx' = exercises gym @ [row] \<and>
              e_id row \<notin> e_id ` set (exercises gym) \<and> e_workoutId row = ''w1'') \<and>
   hasCompleteExerciseList [no_directive \<lparr> u_action := Some ''delete'' \<rparr>]"
proof -
  let ?u = "no_directive \<lparr> u_action := Some ''delete'' \<rparr>"
  have a: "u_action ?u = Some ''delete''" by simp
  have b: "\<not> has_id ?u" by (simp add: has_id_def no_directive_def)
  have c: "?u \<in> set [?u]" by simp
  from delete_without_id_creates [OF a b c, of "''w1''" "{''e1'', ''e2''}" gym "{}"] a b
  show ?thesis by simp
qed

text \<open>
  The claim as it was stated fails: the payload below holds one directive, with
  \<open>_action\<close> "delete" and no id. The call creates the exercise "Untitled Exercise", and,
  the batch counting as a complete list, deletes the two exercises the workout had.
\<close>

theorem delete_without_id_is_not_a_noop:
  "validateUpdateWorkout delete_without_id =
     Inr \<lparr> uw_name = None, uw_description = FAbsent, uw_category = None,
           uw_exercises = Some [no_directive \<lparr> u_action := Some ''delete'' \<rparr>] \<rparr> \<and>
   dispatch ''w1'' {''e1'', ''e2''} (gym, {}) (no_directive \<lparr> u_action := Some ''delete'' \<rparr>) =
     Inr (gym \<lparr> exercises := [squats, lunges, untitled], id_counter := 1 \<rparr>, {''c0''}) \<and>
   exercises gym = [squats, lunges] \<and>
   exercises (fst (PUT gym ''w1'' delete_without_id)) = [untitled]"
  by code_simp

text \<open>
  Claim C5, as amended. For every directive that has no id, or whose id matches no
  existing exercise of the workout, and that is not a delete directive with an id, the
  dispatch succeeds and inserts exactly one new exercise, owned by the workout and under
  an id that no row carried; the id is recorded as resolved. Its name is the directive's
  name, or "Untitled Exercise" if the name is missing or empty; its order is the
  directive's order, or 0 if the order is missing or not a number.
\<close>

theorem create_dispatch_defaults:
  assumes "\<not> (u_action u = Some ''delete'' \<and> has_id u)" and "\<not> (has_id u \<and> id_of u \<in> ex)"
  shows "\<exists>tx' row. dispatch wid ex (tx, upd) u = Inr (tx', insert (e_id row) upd) \<and>
           exercises tx' = exercises tx @ [row] \<and>
           e_id row \<notin> e_id ` set (exercises tx) \<and>
           e_workoutId row = wid \<and>
           e_name row = (case u_name u of
                           None \<Rightarrow> ''Untitled Exercise''
                         | Some n \<Rightarrow> if n = [] then ''Untitled Exercise'' else n) \<and>
           e_order row = (case u_order u of
                            None \<Rightarrow> 0 | Some NaN \<Rightarrow> 0 | Some (Num k) \<Rightarrow> k)"
proof -
  have n: "name_or_default (u_name u) =
             (case u_name u of
                None \<Rightarrow> ''Untitled Exercise''
              | Some n \<Rightarrow> if n = [] then ''Untitled Exercise'' else n)"
    by (simp add: name_or_default_def split: option.splits)
  have o: "order_or_default (u_order u) =
             (case u_order u of None \<Rightarrow> 0 | Some NaN \<Rightarrow> 0 | Some (Num k) \<Rightarrow> k)"
    by (simp add: order_or_default_def split: option.splits jsnumber.splits)
  show ?thesis
    using dispatch_create [OF assms, of wid tx upd] unfolding n o .
qed

theorem create_dispatch_defaults_witness:
  "\<not> (u_action (no_directive \<lparr> u_id := Some ''zz'', u_name := Some ''New'' \<rparr>) = Some ''delete'' \<and>
      has_id (no_directive \<lparr> u_id := Some ''zz'', u_name := Some ''New'' \<rparr>)) \<and>
   \<not> (has_id (no_directive \<lparr> u_id := Some ''zz'', u_name := Some ''New'' \<rparr>) \<and>
      id_of (no_directive \<lparr> u_id := Some ''zz'', u_name := Some ''New'' \<rparr>) \<in> {''e1'', ''e2''}) \<and>
   (\<exists>tx' row. dispatch ''w1'' {''e1'', ''e2''} (gym, {})
                 (no_directive \<lparr> u_id := Some ''zz'', u_name := Some ''New'' \<rparr>)
                 = Inr (tx', insert (e_id row) {}) \<and>
              exercises tx' = exercises gym @ [row] \<and>
              e_id row \<notin> e_id ` set (exercises gym) \<and>
              e_workoutId row = ''w1'' \<and> e_name row = ''New'' \<and> e_order row = 0)"
proof -
  let ?u = "no_directive \<lparr> u_id := Some ''zz'', u_name := Some ''New'' \<rparr>"
  have a: "\<not> (u_action ?u = Some ''delete'' \<and> has_id ?u)" by (simp add: no_directive_def)
  have b: "\<not> (has_id ?u \<and> id_of ?u \<in> {''e1'', ''e2''})" by (simp add: id_of_def)
  from create_dispatch_defaults [OF a b, of "''w1''" gym "{}"] a b
  show ?thesis by (simp add: no_directive_def)
qed

text \<open>
  The claim as it was stated fails on an empty name. An exercise entry whose name is
  one blank passes validation and is sanitised to a directive with the empty name; the
  exercise created for it is named "Untitled Exercise", not with the directive's name.
\<close>

theorem blank_name_gets_placeholder:
  "validateUpdateExercise blank_name = Inr (no_directive \<lparr> u_name := Some [] \<rparr>) \<and>
   dispatch ''w1'' {''e1'', ''e2''} (gym, {}) (no_directive \<lparr> u_name := Some [] \<rparr>) =
     Inr (gym \<lparr> exercises := [squats, lunges, untitled], id_counter := 1 \<rparr>, {''c0''}) \<and>
   e_name untitled = ''Untitled Exercise'' \<and>
   e_name untitled \<noteq> []"
  by code_simp

text \<open>
  Claim C10, as amended. A directive with \<open>_action\<close> "create" whose id matches an
  existing exercise of the workout is dispatched as an update of that exercise in place:
  a dispatch that does not fail leaves the table with the same rows, the matching one
  carrying the fields the directive supplies, and records the id as resolved; no row is
  created. Its presence marks the batch as a complete list all the same, so that, when
  the call succeeds, every exercise of the workout that no directive names is deleted.
\<close>

theorem create_action_updates_in_place:
  assumes "u_action u = Some ''create''" and "has_id u"
    and "id_of u \<in> e_id ` set (include_exercises ExercisesTrue d wid)"
    and "validateUpdateWorkout body = Inr v" and "uw_exercises v = Some us" and "u \<in> set us"
    and "PUT d wid body = (d', SuccessResponse s r)"
    and "e \<in> set (exercises d)" and "e_workoutId e = wid"
    and "\<forall>x\<in>set us. u_id x \<noteq> Some (e_id e)"
  shows "(\<forall>tx upd tx' upd'.
            dispatch wid (e_id ` set (include_exercises ExercisesTrue d wid)) (tx, upd) u
              = Inr (tx', upd') \<longrightarrow>
            exercises tx' =
              map (\<lambda>x. if e_id x = id_of u
                        then apply_exercise_update
                               \<lparr> xu_name = u_name u, xu_reps = u_reps u, xu_sets = u_sets u,
                                 xu_duration = u_duration u, xu_notes = u_notes u,
                                 xu_order = u_order u \<rparr> x
                        else x) (exercises tx) \<and>
            upd' = insert (id_of u) upd) \<and>
         hasCompleteExerciseList us \<and>
         e_id e \<notin> e_id ` set (exercises d')"
proof -
  have nd: "\<not> (u_action u = Some ''delete'' \<and> has_id u)" using assms(1) by simp
  have marker: "hasCompleteExerciseList us"
    using assms(1,6) by (auto simp: hasCompleteExerciseList_def list_ex_iff)
  from PUT_replace [OF assms(4,5) marker assms(7-10)]
  have "e_id e \<notin> e_id ` set (exercises d')" by simp
  with marker dispatch_update [OF nd assms(2,3)] show ?thesis by blast
qed

theorem create_action_updates_in_place_witness:
  "u_action recreate_squats_directive = Some ''create'' \<and> has_id recreate_squats_directive \<and>
   id_of recreate_squats_directive \<in> e_id ` set (include_exercises ExercisesTrue gym ''w1'') \<and>
   validateUpdateWorkout recreate_squats =
     Inr \<lparr> uw_name = None, uw_description = FAbsent, uw_category = None,
           uw_exercises = Some [recreate_squats_directive] \<rparr> \<and>
   PUT gym ''w1'' recreate_squats =
     (gym \<lparr> exercises := [squats \<lparr> e_name := ''Front Squats'' \<rparr>] \<rparr>,
      SuccessResponse 200
        (workoutResponse False
           (with_relations ExercisesOrderByOrderAsc (Some (Some 1))
              (gym \<lparr> exercises := [squats \<lparr> e_name := ''Front Squats'' \<rparr>] \<rparr>) leg_day))) \<and>
   lunges \<in> set (exercises gym) \<and> e_workoutId lunges = ''w1'' \<and>
   u_id recreate_squats_directive \<noteq> Some (e_id lunges) \<and>
   dispatch ''w1'' (e_id ` set (include_exercises ExercisesTrue gym ''w1'')) (gym, {})
       recreate_squats_directive
     = Inr (gym \<lparr> exercises := [squats \<lparr> e_name := ''Front Squats'' \<rparr>, lunges] \<rparr>, {''e1''}) \<and>
   hasCompleteExerciseList [recreate_squats_directive] \<and>
   e_id lunges \<notin> e_id ` set (exercises (gym \<lparr> exercises := [squats \<lparr> e_name := ''Front Squats'' \<rparr>] \<rparr>))"
proof -
  let ?u = recreate_squats_directive
  let ?v = "\<lparr> uw_name = None, uw_description = FAbsent, uw_category = None,
              uw_exercises = Some [?u] \<rparr>"
  let ?after = "gym \<lparr> exercises := [squats \<lparr> e_name := ''Front Squats'' \<rparr>] \<rparr>"
  have a: "u_action ?u = Some ''create''" by code_simp
  have b: "has_id ?u" by code_simp
  have c: "id_of ?u \<in> e_id ` set (include_exercises ExercisesTrue gym ''w1'')" by code_simp
  have valid: "validateUpdateWorkout recreate_squats = Inr ?v" by code_simp
  have ex: "uw_exercises ?v = Some [?u]" by simp
  have mem: "?u \<in> set [?u]" by simp
  have ok: "PUT gym ''w1'' recreate_squats =
     (?after,
      SuccessResponse 200
        (workoutResponse False
           (with_relations ExercisesOrderByOrderAsc (Some (Some 1)) ?after leg_day)))"
    by code_simp
  have pre: "lunges \<in> set (exercises gym)" "e_workoutId lunges = ''w1''"
    by (simp_all add: gym_def lunges_def)
  have unref: "u_id ?u \<noteq> Some (e_id lunges)" by code_simp
  have step: "dispatch ''w1'' (e_id ` set (include_exercises ExercisesTrue gym ''w1'')) (gym, {}) ?u
     = Inr (gym \<lparr> exercises := [squats \<lparr> e_name := ''Front Squats'' \<rparr>, lunges] \<rparr>, {''e1''})"
    by code_simp
  from create_action_updates_in_place [OF a b c valid ex mem ok pre] unref
  have "hasCompleteExerciseList [?u] \<and> e_id lunges \<notin> e_id ` set (exercises ?after)"
    by simp
  with a b c valid ok pre unref step show ?thesis by simp
qed

text \<open>
  The claim as it was stated fails where the call fails: exercise \<open>e1\<close> is sent with
  \<open>_action\<close> "create" and matches, no directive names \<open>e2\<close>, and \<open>e2\<close> is still stored
  after the call, which a later directive made fail.
\<close>

theorem recreate_undone_by_failing_batch:
  "validateUpdateWorkout recreate_then_missing_delete =
     Inr \<lparr> uw_name = None, uw_description = FAbsent, uw_category = None,
           uw_exercises = Some [recreate_squats_directive,
                                no_directive \<lparr> u_id := Some ''nope'',
                                               u_action := Some ''delete'' \<rparr>] \<rparr> \<and>
   u_action recreate_squats_directive = Some ''create'' \<and> has_id recreate_squats_directive \<and>
   id_of recreate_squats_directive \<in> e_id ` set (include_exercises ExercisesTrue gym ''w1'') \<and>
   lunges \<in> set (exercises gym) \<and> e_workoutId lunges = ''w1'' \<and>
   list_all (\<lambda>u. u_id u \<noteq> Some (e_id lunges))
     [recreate_squats_directive,
      no_directive \<lparr> u_id := Some ''nope'', u_action := Some ''delete'' \<rparr>] \<and>
   PUT gym ''w1'' recreate_then_missing_delete =
     (gym, ErrorResponse 404 \<lparr> ae_error = ''Not Found'', ae_message = ''Record not found'',
                               ae_details = None \<rparr>) \<and>
   e_id lunges \<in> e_id ` set (exercises (fst (PUT gym ''w1'' recreate_then_missing_delete)))"
  by code_simp

section \<open>Validation\<close>

text \<open>
  Claim C6. The update validator is meant to accept \<open>null\<close> for the description and
  to emit it as \<open>null\<close>, which clears the field. It does not: a payload whose
  description is \<open>null\<close> is rejected with "description must be a string", and \<open>PUT\<close>
  answers 400 and changes nothing.
\<close>

theorem update_rejects_null_description:
  "validateUpdateWorkout (no_body \<lparr> b_description := JNull \<rparr>) =
     Inl (ValidationError ''Validation failed'' (Some [''description must be a string''])) \<and>
   PUT gym ''w1'' (no_body \<lparr> b_description := JNull \<rparr>) =
     (gym, ErrorResponse 400 \<lparr> ae_error = ''Bad Request'', ae_message = ''Validation failed'',
                               ae_details = Some [''description must be a string''] \<rparr>)"
  by code_simp

text \<open>
  What the neighbouring paths do: the empty string is emitted as \<open>null\<close> and an absent
  description as absent; the creation validator accepts a \<open>null\<close> description; the
  update validator of an exercise accepts \<open>null\<close> notes and emits \<open>null\<close>.
\<close>

lemma null_on_the_sibling_paths:
  "validateUpdateWorkout (no_body \<lparr> b_description := JStr [] \<rparr>) =
     Inr \<lparr> uw_name = None, uw_description = FNull, uw_category = None, uw_exercises = None \<rparr> \<and>
   validateUpdateWorkout no_body =
     Inr \<lparr> uw_name = None, uw_description = FAbsent, uw_category = None, uw_exercises = None \<rparr> \<and>
   validateCreateWorkout
       (push_day \<lparr> b_description := JNull \<rparr>) = validateCreateWorkout push_day \<and>
   validateUpdateExercise (no_exercise \<lparr> p_notes := JNull \<rparr>) =
     Inr (no_directive \<lparr> u_notes := FNull \<rparr>)"
  by code_simp

lemma join_snoc: "\<exists>pre. join sep (xs @ [m]) = pre @ m"
proof (induction sep xs rule: join.induct)
  case (1 sep)
  then show ?case by simp
next
  case (2 sep x)
  then show ?case by simp
next
  case (3 sep x y ys)
  then obtain pre where "join sep ((y # ys) @ [m]) = pre @ m" by blast
  then have "join sep ((x # y # ys) @ [m]) = (x @ sep @ pre) @ m" by simp
  then show ?case by blast
qed

lemma validateCreateExercise_no_order:
  assumes "p_order x = JUndefined"
  shows "\<exists>pre. validateCreateExercise x = Inl (ValidationError (pre @ ''order is required'') None)"
proof -
  have last: "push_error E (or_else (validateRequired JUndefined ''order'') X)
                = E @ [''order is required'']" for E X
    by (simp add: validateRequired_def or_else_def push_error_def)
  have "\<exists>E. validateCreateExercise x =
          Inl (ValidationError (join '', '' (E @ [''order is required''])) None)"
    unfolding validateCreateExercise_def Let_def assms last
    by (rule exI, subst if_P, simp, rule refl)
  then show ?thesis using join_snoc by metis
qed

lemma exercise_errors_nth:
  assumes "i < length xs" and "validate (xs ! i) = Inl (ValidationError m dt)"
  shows "''Exercise '' @ nat_to_string (k + i + 1) @ '': '' @ m
           \<in> set (exercise_errors validate k xs)"
  using assms
proof (induction xs arbitrary: i k)
  case Nil
  then show ?case by simp
next
  case (Cons x xs)
  show ?case
  proof (cases i)
    case 0
    with Cons.prems show ?thesis by simp
  next
    case (Suc j)
    with Cons.prems have "j < length xs" "validate (xs ! j) = Inl (ValidationError m dt)"
      by simp_all
    from Cons.IH [OF this, of "k + 1"] Suc show ?thesis by simp
  qed
qed

text \<open>
  Claim C7, as amended. For every workout-creation payload in which some exercise entry
  omits \<open>order\<close>, validation fails: the entry is reported under its 1-based position with
  "order is required" (after the entry's other errors, if any). The array index is
  therefore never used as a default.
\<close>

theorem create_requires_order:
  assumes "b_exercises data = Items xs" and "i < length xs" and "p_order (xs ! i) = JUndefined"
  shows "\<exists>details pre.
           validateCreateWorkout data =
             Inl (ValidationError ''Validation failed'' (Some details)) \<and>
           ''Exercise '' @ nat_to_string (i + 1) @ '': '' @ pre @ ''order is required''
             \<in> set details"
proof -
  from validateCreateExercise_no_order [OF assms(3)] obtain pre where
    pre: "validateCreateExercise (xs ! i) = Inl (ValidationError (pre @ ''order is required'') None)"
    by blast
  let ?m = "''Exercise '' @ nat_to_string (i + 1) @ '': '' @ pre @ ''order is required''"
  have mem: "?m \<in> set (exercise_errors validateCreateExercise 0 xs)"
    using exercise_errors_nth [where validate = validateCreateExercise and k = 0, OF assms(2) pre]
    by simp
  obtain x rest where xs: "xs = x # rest" using assms(2) by (cases xs) auto
  have "\<exists>errs0. validateCreateWorkout data =
          Inl (ValidationError ''Validation failed''
                 (Some (errs0 @ exercise_errors validateCreateExercise 0 xs)))"
    using assms(1) mem xs
    by (auto simp: validateCreateWorkout_def Let_def validateRequiredItems_def validateArray_def
                   or_else_def simp del: exercise_errors.simps)
  with mem show ?thesis by auto
qed

theorem create_requires_order_witness:
  "b_exercises squats_without_order =
     Items [no_exercise \<lparr> p_name := JStr ''Squats'', p_sets := JNum 4, p_reps := JNum 10 \<rparr>] \<and>
   (0::nat) < length [no_exercise \<lparr> p_name := JStr ''Squats'', p_sets := JNum 4,
                                    p_reps := JNum 10 \<rparr>] \<and>
   p_order ([no_exercise \<lparr> p_name := JStr ''Squats'', p_sets := JNum 4, p_reps := JNum 10 \<rparr>] ! 0)
     = JUndefined \<and>
   (\<exists>details pre.
      validateCreateWorkout squats_without_order =
        Inl (ValidationError ''Validation failed'' (Some details)) \<and>
      ''Exercise '' @ nat_to_string (0 + 1) @ '': '' @ pre @ ''order is required'' \<in> set details)"
proof -
  let ?x = "no_exercise \<lparr> p_name := JStr ''Squats'', p_sets := JNum 4, p_reps := JNum 10 \<rparr>"
  have a: "b_exercises squats_without_order = Items [?x]"
    by (simp add: squats_without_order_def)
  have b: "(0::nat) < length [?x]" by simp
  have c: "p_order ([?x] ! 0) = JUndefined" by (simp add: no_exercise_def)
  from create_requires_order [OF a b c] a b c show ?thesis by simp
qed

text \<open>
  The claim as it was stated fails: the creation payload below omits the order of its
  only exercise and is rejected, although every other rule holds, as the same payload
  with an order is accepted.
\<close>

theorem create_without_order_is_rejected:
  "validateCreateWorkout squats_without_order =
     Inl (ValidationError ''Validation failed'' (Some [''Exercise 1: order is required''])) \<and>
   validateCreateWorkout
     (squats_without_order \<lparr> b_exercises :=
        Items [no_exercise \<lparr> p_name := JStr ''Squats'', p_sets := JNum 4, p_reps := JNum 10,
                             p_order := JNum 0 \<rparr>] \<rparr>) =
     Inr \<lparr> cw_name = ''Leg Day'', cw_description = None, cw_category = ''strength'',
           cw_exercises = [\<lparr> ce_name = ''Squats'', ce_reps = Some (Num 10),
                             ce_sets = Some (Num 4), ce_duration = None, ce_notes = None,
                             ce_order = JNum 0 \<rparr>] \<rparr>"
  by code_simp

section \<open>Ordering of the responses\<close>

lemma ordered_workoutResponse:
  "ordered_exercises (workoutResponse h (with_relations ExercisesOrderByOrderAsc c d w))"
proof -
  have "map er_order (map exerciseResponse xs) = map e_order xs" for xs
    by (simp add: exerciseResponse_def)
  then show ?thesis
    by (simp add: ordered_exercises_def workoutResponse_def with_relations_def
                  include_exercises_def sorted_sort_key del: map_map)
qed

lemma POST_success:
  assumes "POST d body = (d', SuccessResponse s r)"
  shows "\<exists>w. r = workoutResponse False (with_relations ExercisesOrderByOrderAsc None d' w)"
  using assms
  by (auto simp: POST_def transaction_def POST_transaction_def Let_def createSuccessResponse_def
                 createErrorResponse_def handleApiError_def handlePrismaError_def
           split: sum.splits option.splits if_splits prod.splits error.splits)

text \<open>
  Claim C8. Every workout that a handler returns carries its exercises sorted ascending
  by the stored \<open>order\<close>: the list fetch, the single fetch, and the reload after a create,
  an update and a favourite toggle.
\<close>

theorem responses_sorted_by_order:
  "(\<forall>s r. GET d wid = SuccessResponse s r \<longrightarrow> ordered_exercises r) \<and>
   (\<forall>s l. GET_list d q = SuccessResponse s l \<longrightarrow> list_all ordered_exercises (l_data l)) \<and>
   (\<forall>d' s r. POST d new_body = (d', SuccessResponse s r) \<longrightarrow> ordered_exercises r) \<and>
   (\<forall>d' s r. PUT d wid body = (d', SuccessResponse s r) \<longrightarrow> ordered_exercises r) \<and>
   (\<forall>d' s r. PATCH d wid = (d', SuccessResponse s r) \<longrightarrow> ordered_exercises r)"
proof (intro conjI allI impI)
  fix s r assume "GET d wid = SuccessResponse s r"
  then show "ordered_exercises r"
    by (auto simp: GET_def createSuccessResponse_def createErrorResponse_def
                   ordered_workoutResponse split: option.splits)
next
  fix s l assume "GET_list d q = SuccessResponse s l"
  then have "\<exists>ws. l_data l = map (\<lambda>w. workoutResponse False
                 (with_relations ExercisesOrderByOrderAsc (Some (Some 1)) d w)) ws"
    by (auto simp: GET_list_def Let_def createSuccessResponse_def createErrorResponse_def
                   handleApiError_def split: if_splits)
  then show "list_all ordered_exercises (l_data l)"
    by (auto simp: list_all_iff ordered_workoutResponse)
next
  fix d' s r assume "POST d new_body = (d', SuccessResponse s r)"
  from POST_success [OF this] show "ordered_exercises r"
    by (auto simp: ordered_workoutResponse)
next
  fix d' s r assume "PUT d wid body = (d', SuccessResponse s r)"
  from PUT_cases [OF this] show "ordered_exercises r"
    by (auto simp: ordered_workoutResponse)
next
  fix d' s r assume "PATCH d wid = (d', SuccessResponse s r)"
  then show "ordered_exercises r"
    by (auto simp: PATCH_def createSuccessResponse_def createErrorResponse_def
                   handleApiError_def handlePrismaError_def ordered_workoutResponse
             split: option.splits sum.splits error.splits if_splits)
qed

text \<open>
  In the example store \<open>e1\<close> (order 1) is stored before \<open>e2\<close> (order 0); every handler
  returns \<open>e2\<close> first.
\<close>

theorem responses_sorted_by_order_witness:
  "(\<exists>r. GET gym ''w1'' = SuccessResponse 200 r \<and> ordered_exercises r \<and>
         map er_id (r_exercises r) = [''e2'', ''e1'']) \<and>
   (\<exists>l. GET_list gym (parseQueryParams None None None None None) = SuccessResponse 200 l \<and>
         list_all ordered_exercises (l_data l) \<and>
         map (\<lambda>r. map er_id (r_exercises r)) (l_data l) = [''e2'', ''e1''] # []) \<and>
   (\<exists>d' r. POST gym push_day = (d', SuccessResponse 201 r) \<and> ordered_exercises r \<and>
         map er_name (r_exercises r) = [''Bench Press'', ''Dips'']) \<and>
   (\<exists>d' r. PUT gym ''w1'' (no_body \<lparr> b_name := JStr ''Legs'' \<rparr>) = (d', SuccessResponse 200 r) \<and>
         ordered_exercises r \<and> map er_id (r_exercises r) = [''e2'', ''e1'']) \<and>
   (\<exists>d' r. PATCH gym ''w1'' = (d', SuccessResponse 200 r) \<and> ordered_exercises r \<and>
         map er_id (r_exercises r) = [''e2'', ''e1''])"
proof -
  note sorted = responses_sorted_by_order
    [of gym "''w1''" "parseQueryParams None None None None None" push_day
        "no_body \<lparr> b_name := JStr ''Legs'' \<rparr>"]
  let ?g = "workoutResponse True (with_relations ExercisesOrderByOrderAsc (Some None) gym leg_day)"
  have g: "GET gym ''w1'' = SuccessResponse 200 ?g" by code_simp
  have gi: "map er_id (r_exercises ?g) = [''e2'', ''e1'']" by code_simp
  let ?l = "\<lparr> l_data = [workoutResponse False
                          (with_relations ExercisesOrderByOrderAsc (Some (Some 1)) gym leg_day)],
              l_pagination = \<lparr> pg_page = 1, pg_limit = 20, pg_total = 1,
                               pg_totalPages = Some 1 \<rparr> \<rparr>"
  have l: "GET_list gym (parseQueryParams None None None None None) = SuccessResponse 200 ?l"
    by code_simp
  have li: "map (\<lambda>r. map er_id (r_exercises r)) (l_data ?l) = [''e2'', ''e1''] # []" by code_simp
  let ?pd = "fst (POST gym push_day)"
  let ?pr = "workoutResponse False
               (with_relations ExercisesOrderByOrderAsc None ?pd
                  \<lparr> w_id = ''c0'', w_name = ''Push Day'', w_description = None,
                    w_category = ''strength'', w_isFavorite = False, w_createdAt = 5,
                    w_updatedAt = 5 \<rparr>)"
  have p: "POST gym push_day = (?pd, SuccessResponse 201 ?pr)" by code_simp
  have pi: "map er_name (r_exercises ?pr) = [''Bench Press'', ''Dips'']" by code_simp
  let ?ur = "workoutResponse False
               (with_relations ExercisesOrderByOrderAsc (Some (Some 1)) gym_renamed
                  (leg_day \<lparr> w_name := ''Legs'', w_updatedAt := 5 \<rparr>))"
  have u: "PUT gym ''w1'' (no_body \<lparr> b_name := JStr ''Legs'' \<rparr>)
             = (gym_renamed, SuccessResponse 200 ?ur)"
    by code_simp
  have ui: "map er_id (r_exercises ?ur) = [''e2'', ''e1'']" by code_simp
  let ?fd = "fst (PATCH gym ''w1'')"
  let ?fr = "workoutResponse False
               (with_relations ExercisesOrderByOrderAsc (Some (Some 1)) ?fd
                  (leg_day \<lparr> w_isFavorite := True, w_updatedAt := 5 \<rparr>))"
  have f: "PATCH gym ''w1'' = (?fd, SuccessResponse 200 ?fr)" by code_simp
  have fi: "map er_id (r_exercises ?fr) = [''e2'', ''e1'']" by code_simp
  from sorted g have "ordered_exercises ?g" by blast
  with g gi have c1: "\<exists>r. GET gym ''w1'' = SuccessResponse 200 r \<and> ordered_exercises r \<and>
         map er_id (r_exercises r) = [''e2'', ''e1'']"
    by (intro exI conjI)
  from sorted l have "list_all ordered_exercises (l_data ?l)" by blast
  with l li have c2: "\<exists>l. GET_list gym (parseQueryParams None None None None None)
           = SuccessResponse 200 l \<and>
         list_all ordered_exercises (l_data l) \<and>
         map (\<lambda>r. map er_id (r_exercises r)) (l_data l) = [''e2'', ''e1''] # []"
    by (intro exI conjI)
  from sorted p have "ordered_exercises ?pr" by blast
  with p pi have c3: "\<exists>d' r. POST gym push_day = (d', SuccessResponse 201 r) \<and>
         ordered_exercises r \<and> map er_name (r_exercises r) = [''Bench Press'', ''Dips'']"
    by (intro exI conjI)
  from sorted u have "ordered_exercises ?ur" by blast
  with u ui have c4: "\<exists>d' r. PUT gym ''w1'' (no_body \<lparr> b_name := JStr ''Legs'' \<rparr>)
           = (d', SuccessResponse 200 r) \<and>
         ordered_exercises r \<and> map er_id (r_exercises r) = [''e2'', ''e1'']"
    by (intro exI conjI)
  from sorted f have "ordered_exercises ?fr" by blast
  with f fi have c5: "\<exists>d' r. PATCH gym ''w1'' = (d', SuccessResponse 200 r) \<and>
         ordered_exercises r \<and> map er_id (r_exercises r) = [''e2'', ''e1'']"
    by (intro exI conjI)
  from c1 c2 c3 c4 c5 show ?thesis by (intro conjI)
qed

section \<open>Favourite toggle\<close>

lemma find_map_update:
  assumes "\<And>w. w_id (f w) = w_id w"
  shows "find (\<lambda>w. w_id w = wid) (map (\<lambda>w. if w_id w = wid then f w else w) ws)
         = map_option f (find (\<lambda>w. w_id w = wid) ws)"
  using assms by (induction ws) auto

lemma w_id_apply_workout_update [simp]: "w_id (apply_workout_update t data w) = w_id w"
  by (simp add: apply_workout_update_def)

lemma workout_update_found:
  assumes "workout_findUnique d wid = Some w"
  shows "workout_update d wid data =
           Inr (d \<lparr> workouts := map (\<lambda>w. if w_id w = wid
                                            then apply_workout_update (clock d) data w else w)
                                    (workouts d) \<rparr>,
                apply_workout_update (clock d) data w)"
  using assms by (simp add: workout_update_def)

lemma findUnique_after_update:
  assumes "workout_update d wid data = Inr (d', w')"
  shows "workout_findUnique d' wid = Some w' \<and> clock d' = clock d"
  using assms
  by (auto simp: workout_update_def workout_findUnique_def find_map_update split: option.splits)

text \<open>
  Claim C9. The favourite toggle is an involution: for every existing workout, one
  \<open>PATCH\<close> leaves the stored row with \<open>isFavorite\<close> negated, and a second \<open>PATCH\<close>
  brings \<open>isFavorite\<close> back to its original value. Apart from \<open>isFavorite\<close> only
  \<open>updatedAt\<close> changes, which takes the time of the write.
\<close>

theorem favorite_toggle_involution:
  assumes "workout_findUnique d wid = Some w"
  shows "workout_findUnique (fst (PATCH d wid)) wid
           = Some (w \<lparr> w_isFavorite := \<not> w_isFavorite w, w_updatedAt := clock d \<rparr>) \<and>
         workout_findUnique (fst (PATCH (fst (PATCH d wid)) wid)) wid
           = Some (w \<lparr> w_updatedAt := clock d \<rparr>)"
proof -
  let ?flip = "\<lambda>b. \<lparr> wu_name = None, wu_description = FAbsent, wu_category = None,
                      wu_isFavorite = Some b \<rparr>"
  let ?w1 = "apply_workout_update (clock d) (?flip (\<not> w_isFavorite w)) w"
  obtain d1 where u1: "workout_update d wid (?flip (\<not> w_isFavorite w)) = Inr (d1, ?w1)"
    using workout_update_found [OF assms] by simp
  have p1: "fst (PATCH d wid) = d1"
    using assms u1 by (simp add: PATCH_def)
  have f1: "workout_findUnique d1 wid = Some ?w1" and c1: "clock d1 = clock d"
    using findUnique_after_update [OF u1] by simp_all
  let ?w2 = "apply_workout_update (clock d1) (?flip (\<not> w_isFavorite ?w1)) ?w1"
  obtain d2 where u2: "workout_update d1 wid (?flip (\<not> w_isFavorite ?w1)) = Inr (d2, ?w2)"
    using workout_update_found [OF f1] by simp
  have p2: "fst (PATCH d1 wid) = d2"
    using f1 u2 by (simp add: PATCH_def)
  have f2: "workout_findUnique d2 wid = Some ?w2"
    using findUnique_after_update [OF u2] by simp
  show ?thesis
    using p1 p2 f1 f2 c1 by (simp add: apply_workout_update_def)
qed

theorem favorite_toggle_involution_witness:
  "workout_findUnique gym ''w1'' = Some leg_day \<and>
   workout_findUnique (fst (PATCH gym ''w1'')) ''w1''
     = Some (leg_day \<lparr> w_isFavorite := True, w_updatedAt := 5 \<rparr>) \<and>
   workout_findUnique (fst (PATCH (fst (PATCH gym ''w1'')) ''w1'')) ''w1''
     = Some (leg_day \<lparr> w_updatedAt := 5 \<rparr>)"
proof -
  have h: "workout_findUnique gym ''w1'' = Some leg_day"
    by (simp add: workout_findUnique_def gym_def leg_day_def)
  show ?thesis
    using h favorite_toggle_involution [OF h] by (simp add: gym_def leg_day_def)
qed


end
